theory Spec2Isabelle
  imports Main "HOL-Library.Word" "HOL-Library.DAList"
begin

unbundle bit_operations_syntax

section \<open>Go types, values and memory\<close>

text \<open>
  The registry and the planner of \<^verbatim>\<open>pgtype.go\<close> dispatch on the dynamic type of an
  \<^verbatim>\<open>interface{}\<close> argument (type switches, \<^verbatim>\<open>reflect.TypeOf\<close>, \<^verbatim>\<open>reflect.Kind\<close>) and
  write through pointers. The model therefore carries a small universe of Go types,
  interface values as an optional pair of dynamic type and value (\<open>None\<close> is the nil
  interface), and a memory of cells addressed by natural numbers.
\<close>

type_synonym byte = "8 word"
type_synonym oid = "32 word"
type_synonym format_code = "16 word"
type_synonym addr = nat

datatype basic =
  GoBool | GoInt | GoInt8 | GoInt16 | GoInt32 | GoInt64
  | GoUint | GoUint8 | GoUint16 | GoUint32 | GoUint64
  | GoFloat32 | GoFloat64 | GoString

text \<open>\<^verbatim>\<open>reflect.Kind\<close>; \<open>Invalid\<close> is the kind of the zero \<^verbatim>\<open>reflect.Value\<close>.\<close>

datatype kind = Invalid | BasicKind basic | Ptr | Slice | Interface | Struct

text \<open>
  \<^verbatim>\<open>reflect.Type\<close>: predeclared types, pointers, slices, \<^verbatim>\<open>interface{}\<close>, struct types
  (by name), and defined types \<open>Named n b\<close> whose underlying type is the predeclared
  type \<open>b\<close> (\<^verbatim>\<open>type MyInt int64\<close>). Defined pointer, slice and interface types are
  outside this universe.
\<close>

datatype gotype =
  Basic basic
  | PtrTo gotype
  | SliceOf gotype
  | EmptyInterface
  | StructType string
  | Named string basic

fun kind_of :: "gotype \<Rightarrow> kind" where
  "kind_of (Basic b) = BasicKind b"
| "kind_of (PtrTo t) = Ptr"
| "kind_of (SliceOf t) = Slice"
| "kind_of EmptyInterface = Interface"
| "kind_of (StructType n) = Struct"
| "kind_of (Named n b) = BasicKind b"

fun underlying :: "gotype \<Rightarrow> gotype" where
  "underlying (Named n b) = Basic b"
| "underlying t = t"

text \<open>
  The contents of a memory cell or of an interface. Floats are kept as their IEEE bit
  pattern, Go strings as byte sequences, a slice of bytes as \<open>None\<close> (the nil slice) or
  its bytes, a pointer as \<open>None\<close> (nil) or an address.
\<close>

datatype goval =
  VBool bool
  | VInt int
  | VInt64 "64 word"
  | VFloat32 "32 word"
  | VFloat64 "64 word"
  | VString "byte list"
  | VBytes "byte list option"
  | VPtr "addr option"
  | VIface "(gotype \<times> goval) option"
  | VOther nat

type_synonym iface = "(gotype \<times> goval) option"

definition typeOf :: "iface \<Rightarrow> gotype option" where
  "typeOf v = map_option fst v"

text \<open>\<^verbatim>\<open>reflect.Zero\<close>: the zero value of a type.\<close>

fun zero_basic :: "basic \<Rightarrow> goval" where
  "zero_basic GoBool = VBool False"
| "zero_basic GoInt64 = VInt64 0"
| "zero_basic GoFloat32 = VFloat32 0"
| "zero_basic GoFloat64 = VFloat64 0"
| "zero_basic GoString = VString []"
| "zero_basic b = VInt 0"

fun zero_of :: "gotype \<Rightarrow> goval" where
  "zero_of (Basic b) = zero_basic b"
| "zero_of (PtrTo t) = VPtr None"
| "zero_of (SliceOf t) = (if t = Basic GoUint8 then VBytes None else VOther 0)"
| "zero_of EmptyInterface = VIface None"
| "zero_of (StructType n) = VOther 0"
| "zero_of (Named n b) = zero_basic b"

text \<open>
  Writing through a pointer: \<open>None\<close> is the run-time panic of a nil dereference (or of
  an address that was never allocated).
\<close>

definition store :: "goval \<Rightarrow> goval \<Rightarrow> goval list \<Rightarrow> goval list option" where
  "store p v h =
     (case p of
        VPtr (Some a) \<Rightarrow> if a < length h then Some (h[a := v]) else None
      | _ \<Rightarrow> None)"

datatype 'a outcome = Panic | Done 'a

section \<open>Constants\<close>

definition ByteaOID :: oid where "ByteaOID = 17"
definition Int8OID :: oid where "Int8OID = 20"
definition TextOID :: oid where "TextOID = 25"
definition JSONOID :: oid where "JSONOID = 114"
definition Float4OID :: oid where "Float4OID = 700"
definition Float8OID :: oid where "Float8OID = 701"
definition VarcharOID :: oid where "VarcharOID = 1043"

definition TextFormatCode :: format_code where "TextFormatCode = 0"
definition BinaryFormatCode :: format_code where "BinaryFormatCode = 1"

section \<open>DataType, ConnInfo and plans\<close>

text \<open>
  A \<^verbatim>\<open>Codec\<close> is an interface implemented outside \<^verbatim>\<open>pgtype.go\<close>; the model names a
  codec by a number and takes its behaviour from the environment below. The \<^verbatim>\<open>Value\<close>
  of a DataType is an interface value (a pointer to a value object in memory).
\<close>

record DataType =
  Value :: iface
  textDecoder :: iface
  binaryDecoder :: iface
  Codec :: "nat option"
  Name :: string
  OID :: oid

text \<open>
  The Go maps are association lists with distinct keys; the order of the list stands
  for the (unspecified) iteration order of \<^verbatim>\<open>range\<close>. The maps of the source hold
  \<^verbatim>\<open>*DataType\<close>; a registered DataType is never written again after
  \<^verbatim>\<open>RegisterDataType\<close> returns, so the model stores the record itself.
  \<open>reflectTypeToDataType = None\<close> is the nil (invalidated) derived index.
\<close>

record ConnInfo =
  oidToDataType :: "(oid, DataType) alist"
  nameToDataType :: "(string, DataType) alist"
  reflectTypeToName :: "(gotype option, string) alist"
  oidToFormatCode :: "(oid, format_code) alist"
  oidToResultFormatCode :: "(oid, format_code) alist"
  reflectTypeToDataType :: "(gotype option, DataType) alist option"
  preferAssignToOverSQLScannerTypes :: "gotype option list"

record state =
  ci :: ConnInfo
  heap :: "goval list"

datatype error =
  CannotScanNull "gotype option"
  | InvalidLengthInt8 nat
  | InvalidLengthInt4 nat
  | BinaryDecoderIsNil
  | TextDecoderIsNil
  | UnknownOIDBinary oid "gotype option"
  | UnknownOID oid "gotype option"
  | UnableToEncode iface
  | ExternalError nat

datatype scan_plan =
  scanPlanDstResultDecoder
  | scanPlanDstBinaryDecoder
  | scanPlanDstTextDecoder
  | scanPlanDataTypeSQLScanner DataType
  | scanPlanDataTypeAssignTo DataType
  | scanPlanSQLScanner
  | scanPlanReflection
  | scanPlanBinaryInt64
  | scanPlanBinaryFloat32
  | scanPlanBinaryFloat64
  | scanPlanBinaryBytes
  | scanPlanString
  | pointerPointerScanPlan gotype scan_plan
  | baseTypeScanPlan gotype gotype scan_plan
  | pointerEmptyInterfaceScanPlan nat
  | scanPlanTextAnyToTextScanner
  | codecScanPlan nat

datatype encode_plan =
  derefPointerEncodePlan encode_plan
  | baseTypeEncodePlan gotype encode_plan
  | codecEncodePlan nat

datatype scan_result = OutOfFuel | Panicked | Returned "error option" state

datatype interface =
  BinaryDecoder | TextDecoder | BinaryEncoder | TextScanner | SQLScanner | TypeValue

text \<open>
  Everything the source calls but does not define: the method sets of the dynamic
  types, the methods of Value, Codec, the decoders and \<^verbatim>\<open>sql.Scanner\<close>, the plans the
  codecs return, and the helpers \<^verbatim>\<open>GetAssignToDstType\<close> and \<^verbatim>\<open>DatabaseSQLValue\<close>.
  They are parameters of the model; every theorem holds for all of them. A method
  that is handed the \<^verbatim>\<open>*ConnInfo\<close> works on the whole state, the others on memory;
  the type name of a TypeValue is a constant of the object.
\<close>

record env =
  implements :: "gotype \<Rightarrow> interface \<Rightarrow> bool"
  NewTypeValue :: "iface \<Rightarrow> goval list \<Rightarrow> iface \<times> goval list"
  TypeName :: "iface \<Rightarrow> string"
  AssignTo :: "iface \<Rightarrow> iface \<Rightarrow> goval list \<Rightarrow> error option \<times> goval list"
  Get :: "iface \<Rightarrow> goval list \<Rightarrow> iface"
  DecodeBinary :: "iface \<Rightarrow> byte list option \<Rightarrow> state \<Rightarrow> error option \<times> state"
  DecodeText :: "iface \<Rightarrow> byte list option \<Rightarrow> state \<Rightarrow> error option \<times> state"
  ScannerScan :: "iface \<Rightarrow> iface \<Rightarrow> goval list \<Rightarrow> error option \<times> goval list"
  DatabaseSQLValue :: "iface \<Rightarrow> state \<Rightarrow> (error + iface) \<times> state"
  GetAssignToDstType :: "iface \<Rightarrow> goval list \<Rightarrow> iface option \<times> goval list"
  PreferredFormat :: "nat \<Rightarrow> format_code"
  CodecPlanScan :: "nat \<Rightarrow> ConnInfo \<Rightarrow> oid \<Rightarrow> format_code \<Rightarrow> iface \<Rightarrow> bool \<Rightarrow> scan_plan option"
  CodecPlanEncode :: "nat \<Rightarrow> ConnInfo \<Rightarrow> oid \<Rightarrow> format_code \<Rightarrow> iface \<Rightarrow> encode_plan option"
  DecodeDatabaseSQLValue ::
    "nat \<Rightarrow> oid \<Rightarrow> format_code \<Rightarrow> byte list option \<Rightarrow> state \<Rightarrow> (error + iface) \<times> state"
  DecodeValue ::
    "nat \<Rightarrow> oid \<Rightarrow> format_code \<Rightarrow> byte list option \<Rightarrow> state \<Rightarrow> (error + iface) \<times> state"
  codecScanPlan_Scan ::
    "nat \<Rightarrow> oid \<Rightarrow> format_code \<Rightarrow> byte list option \<Rightarrow> iface \<Rightarrow> state \<Rightarrow> scan_result"
  textScannerPlan_Scan ::
    "oid \<Rightarrow> format_code \<Rightarrow> byte list option \<Rightarrow> iface \<Rightarrow> state \<Rightarrow> scan_result"
  codecEncodePlan_Encode ::
    "nat \<Rightarrow> iface \<Rightarrow> byte list option \<Rightarrow> goval list
       \<Rightarrow> ((byte list option \<times> error option) \<times> goval list) outcome"

text \<open>
  Only defined types and pointers to them have methods in Go; \<^verbatim>\<open>*string\<close>, \<^verbatim>\<open>*[]byte\<close>,
  \<^verbatim>\<open>**T\<close> or \<^verbatim>\<open>*interface{}\<close> implement no interface with methods.
\<close>

fun hasMethods :: "gotype \<Rightarrow> bool" where
  "hasMethods (Named n b) = True"
| "hasMethods (StructType n) = True"
| "hasMethods (PtrTo (Named n b)) = True"
| "hasMethods (PtrTo (StructType n)) = True"
| "hasMethods t = False"

text \<open>The comma-ok type assertion \<^verbatim>\<open>v.(I)\<close>: false on the nil interface.\<close>

definition hasInterface :: "env \<Rightarrow> iface \<Rightarrow> interface \<Rightarrow> bool" where
  "hasInterface env v i =
     (case v of None \<Rightarrow> False | Some (t, x) \<Rightarrow> hasMethods t \<and> implements env t i)"

section \<open>The registry\<close>

definition newConnInfo :: ConnInfo where
  "newConnInfo =
     \<lparr> oidToDataType = DAList.empty,
       nameToDataType = DAList.empty,
       reflectTypeToName = DAList.empty,
       oidToFormatCode = DAList.empty,
       oidToResultFormatCode = DAList.empty,
       reflectTypeToDataType = None,
       preferAssignToOverSQLScannerTypes = [] \<rparr>"

text \<open>
  \<^verbatim>\<open>NewValue\<close>: a TypeValue makes its own copy; otherwise
  \<^verbatim>\<open>reflect.New(reflect.ValueOf(v).Elem().Type()).Interface().(Value)\<close>, which panics
  unless \<open>v\<close> is a non-nil pointer (\<^verbatim>\<open>Elem\<close> on another kind, \<^verbatim>\<open>Type\<close> on the zero Value
  of a nil pointer). The fresh pointer has the type of \<open>v\<close>, which holds a Value, so the
  final assertion succeeds.
\<close>

definition NewValue :: "env \<Rightarrow> iface \<Rightarrow> goval list \<Rightarrow> (iface \<times> goval list) outcome" where
  "NewValue env v h =
     (if hasInterface env v TypeValue then Done (NewTypeValue env v h)
      else
        (case v of
           Some (PtrTo t, VPtr (Some a)) \<Rightarrow>
             Done (Some (PtrTo t, VPtr (Some (length h))), h @ [zero_of t])
         | _ \<Rightarrow> Panic))"

definition RegisterDataType :: "env \<Rightarrow> state \<Rightarrow> DataType \<Rightarrow> state outcome" where
  "RegisterDataType env st t =
     (case (if Value t \<noteq> None then NewValue env (Value t) (heap st)
            else Done (Value t, heap st)) of
        Panic \<Rightarrow> Panic
      | Done (v, h1) \<Rightarrow>
          let formatCode =
                (case Codec t of
                   Some c \<Rightarrow> PreferredFormat env c
                 | None \<Rightarrow> if hasInterface env v BinaryEncoder then BinaryFormatCode else 0);
              t1 = t\<lparr> Value := v,
                      textDecoder := (if hasInterface env v TextDecoder then v else textDecoder t),
                      binaryDecoder := (if hasInterface env v BinaryDecoder then v else binaryDecoder t) \<rparr>;
              c = ci st
          in Done (st\<lparr> heap := h1, ci := c\<lparr> oidToDataType := DAList.update (OID t) t1 (oidToDataType c),
                                  nameToDataType := DAList.update (Name t) t1 (nameToDataType c),
                                  oidToFormatCode := DAList.update (OID t) formatCode (oidToFormatCode c),
                                  reflectTypeToDataType := None \<rparr> \<rparr>))"

definition RegisterDefaultPgType :: "ConnInfo \<Rightarrow> iface \<Rightarrow> string \<Rightarrow> ConnInfo" where
  "RegisterDefaultPgType c v name =
     c\<lparr> reflectTypeToName := DAList.update (typeOf v) name (reflectTypeToName c),
        reflectTypeToDataType := None \<rparr>"

definition DataTypeForOID :: "ConnInfo \<Rightarrow> oid \<Rightarrow> DataType option" where
  "DataTypeForOID c oid = DAList.lookup (oidToDataType c) oid"

definition DataTypeForName :: "ConnInfo \<Rightarrow> string \<Rightarrow> DataType option" where
  "DataTypeForName c name = DAList.lookup (nameToDataType c) name"

text \<open>
  \<^verbatim>\<open>buildReflectTypeToDataType\<close>: the two \<^verbatim>\<open>range\<close> loops, each a fold over the entries
  of the map, the second overlaying the first.
\<close>

definition addValueType ::
  "env \<Rightarrow> oid \<times> DataType \<Rightarrow> (gotype option, DataType) alist \<Rightarrow> (gotype option, DataType) alist" where
  "addValueType env e m =
     (if Value (snd e) \<noteq> None \<and> \<not> hasInterface env (Value (snd e)) TypeValue
      then DAList.update (typeOf (Value (snd e))) (snd e) m else m)"

definition addDefaultType ::
  "ConnInfo \<Rightarrow> gotype option \<times> string \<Rightarrow> (gotype option, DataType) alist
     \<Rightarrow> (gotype option, DataType) alist" where
  "addDefaultType c e m =
     (case DAList.lookup (nameToDataType c) (snd e) of
        Some dt \<Rightarrow> DAList.update (fst e) dt m
      | None \<Rightarrow> m)"

definition buildReflectTypeToDataType :: "env \<Rightarrow> ConnInfo \<Rightarrow> ConnInfo" where
  "buildReflectTypeToDataType env c =
     c\<lparr> reflectTypeToDataType :=
          Some (fold (addDefaultType c) (DAList.impl_of (reflectTypeToName c))
                  (fold (addValueType env) (DAList.impl_of (oidToDataType c)) DAList.empty)) \<rparr>"

text \<open>
  \<^verbatim>\<open>DataTypeForValue\<close> returns the lookup and the registry, whose derived index it may
  have built.
\<close>

definition DataTypeForValue :: "env \<Rightarrow> state \<Rightarrow> iface \<Rightarrow> DataType option \<times> state" where
  "DataTypeForValue env st v =
     (let c = (if reflectTypeToDataType (ci st) = None
               then buildReflectTypeToDataType env (ci st) else ci st);
          st1 = st\<lparr>ci := c\<rparr>
      in if hasInterface env v TypeValue
         then (DAList.lookup (nameToDataType c) (TypeName env v), st1)
         else (case reflectTypeToDataType c of
                 None \<Rightarrow> (None, st1)
               | Some m \<Rightarrow> (DAList.lookup m (typeOf v), st1)))"


definition PreferAssignToOverSQLScannerForType :: "ConnInfo \<Rightarrow> iface \<Rightarrow> ConnInfo" where
  "PreferAssignToOverSQLScannerForType c v =
     c\<lparr> preferAssignToOverSQLScannerTypes := typeOf v # preferAssignToOverSQLScannerTypes c \<rparr>"

section \<open>Scan planning\<close>

text \<open>
  The type switches of \<^verbatim>\<open>PlanScan\<close>: the first case that matches the dynamic type of
  \<open>dst\<close> is taken, and when its inner test on the OID fails the switch is left without
  trying the later cases.
\<close>

definition fastPathScanPlan :: "env \<Rightarrow> oid \<Rightarrow> format_code \<Rightarrow> iface \<Rightarrow> scan_plan option" where
  "fastPathScanPlan env oid formatCode dst =
     (if formatCode = BinaryFormatCode then
        (if typeOf dst = Some (PtrTo (Basic GoString)) then
           (if oid = TextOID \<or> oid = VarcharOID then Some scanPlanString else None)
         else if typeOf dst = Some (PtrTo (Basic GoInt64)) then
           (if oid = Int8OID then Some scanPlanBinaryInt64 else None)
         else if typeOf dst = Some (PtrTo (Basic GoFloat32)) then
           (if oid = Float4OID then Some scanPlanBinaryFloat32 else None)
         else if typeOf dst = Some (PtrTo (Basic GoFloat64)) then
           (if oid = Float8OID then Some scanPlanBinaryFloat64 else None)
         else if typeOf dst = Some (PtrTo (SliceOf (Basic GoUint8))) then
           (if oid = ByteaOID \<or> oid = TextOID \<or> oid = VarcharOID \<or> oid = JSONOID
            then Some scanPlanBinaryBytes else None)
         else if hasInterface env dst BinaryDecoder then Some scanPlanDstBinaryDecoder
         else None)
      else if formatCode = TextFormatCode then
        (if typeOf dst = Some (PtrTo (Basic GoString)) then Some scanPlanString
         else if typeOf dst = Some (PtrTo (SliceOf (Basic GoUint8))) then
           (if oid \<noteq> ByteaOID then Some scanPlanBinaryBytes else None)
         else if hasInterface env dst TextDecoder then Some scanPlanDstTextDecoder
         else if hasInterface env dst TextScanner then Some scanPlanTextAnyToTextScanner
         else None)
      else None)"

text \<open>
  \<^verbatim>\<open>tryPointerPointerScanPlan\<close> returns the captured \<open>dstType\<close> and the next destination
  (\<open>plan.next\<close> is filled in by \<^verbatim>\<open>PlanScan\<close>). \<^verbatim>\<open>dstValue.Elem()\<close> of a nil pointer is the
  zero Value, of kind \<open>Invalid\<close>; the next destination is the typed nil pointer
  \<^verbatim>\<open>reflect.Zero(elemValue.Type())\<close>.
\<close>

definition tryPointerPointerScanPlan :: "iface \<Rightarrow> (gotype \<times> iface) option" where
  "tryPointerPointerScanPlan dst =
     (case dst of
        Some (PtrTo e, VPtr (Some a)) \<Rightarrow>
          if kind_of e = Ptr then Some (PtrTo e, Some (e, VPtr None)) else None
      | _ \<Rightarrow> None)"

definition elemKindToBasePointerTypes :: "kind \<Rightarrow> gotype option" where
  "elemKindToBasePointerTypes k =
     (case k of
        BasicKind b \<Rightarrow> if b = GoBool then None else Some (PtrTo (Basic b))
      | _ \<Rightarrow> None)"

text \<open>\<^verbatim>\<open>tryBaseTypeScanPlan\<close> returns \<open>dstType\<close>, \<open>nextDstType\<close> and the converted pointer.\<close>

definition tryBaseTypeScanPlan :: "iface \<Rightarrow> (gotype \<times> gotype \<times> iface) option" where
  "tryBaseTypeScanPlan dst =
     (case dst of
        Some (PtrTo e, VPtr p) \<Rightarrow>
          (case elemKindToBasePointerTypes (case p of None \<Rightarrow> Invalid | Some a \<Rightarrow> kind_of e) of
             Some nextDstType \<Rightarrow>
               if PtrTo e \<noteq> nextDstType
               then Some (PtrTo e, nextDstType, Some (nextDstType, VPtr p))
               else None
           | None \<Rightarrow> None)
      | _ \<Rightarrow> None)"

text \<open>The plan for a DataType that is left when its codec, if any, and the adapters declined.\<close>

definition dataTypeScanPlan :: "env \<Rightarrow> state \<Rightarrow> DataType \<Rightarrow> iface \<Rightarrow> scan_plan" where
  "dataTypeScanPlan env st dt dst =
     (if hasInterface env dst SQLScanner
         \<and> typeOf dst \<notin> set (preferAssignToOverSQLScannerTypes (ci st))
      then scanPlanDataTypeSQLScanner dt
      else scanPlanDataTypeAssignTo dt)"

fun type_rank :: "gotype \<Rightarrow> nat" where
  "type_rank (PtrTo t) = Suc (type_rank t)"
| "type_rank (Named n b) = 1"
| "type_rank t = 0"

definition dst_rank :: "iface \<Rightarrow> nat" where
  "dst_rank dst = (case dst of None \<Rightarrow> 0 | Some (t, x) \<Rightarrow> type_rank t)"

text \<open>
  The body of \<^verbatim>\<open>ConnInfo.PlanScan\<close>, with \<open>rec\<close> standing for the two recursive calls
  \<^verbatim>\<open>ci.PlanScan(oid, formatCode, nextDst)\<close>. The result \<open>None\<close> is the nil plan. The
  state is returned because \<^verbatim>\<open>DataTypeForValue\<close> may build the derived index.
\<close>

definition PlanScan_body ::
  "(state \<Rightarrow> iface \<Rightarrow> scan_plan option \<times> state)
     \<Rightarrow> env \<Rightarrow> state \<Rightarrow> oid \<Rightarrow> format_code \<Rightarrow> iface \<Rightarrow> scan_plan option \<times> state" where
  "PlanScan_body rec env st oid formatCode dst =
     (case fastPathScanPlan env oid formatCode dst of
        Some plan \<Rightarrow> (Some plan, st)
      | None \<Rightarrow>
          (case (if oid = 0 then DataTypeForValue env st dst
                 else (DataTypeForOID (ci st) oid, st)) of
             (None, st1) \<Rightarrow>
               (if hasInterface env dst SQLScanner then (Some scanPlanSQLScanner, st1)
                else (Some scanPlanReflection, st1))
           | (Some dt, st1) \<Rightarrow>
               (case Codec dt of
                  None \<Rightarrow> (Some (dataTypeScanPlan env st1 dt dst), st1)
                | Some c \<Rightarrow>
                    (case CodecPlanScan env c (ci st1) oid formatCode dst False of
                       Some plan \<Rightarrow> (Some plan, st1)
                     | None \<Rightarrow>
                         (case (case tryPointerPointerScanPlan dst of
                                  Some (dstType, nextDst) \<Rightarrow>
                                    (case rec st1 nextDst of
                                       (nextPlan, s) \<Rightarrow>
                                         (map_option (pointerPointerScanPlan dstType) nextPlan, s))
                                | None \<Rightarrow> (None, st1)) of
                            (Some plan, st2) \<Rightarrow> (Some plan, st2)
                          | (None, st2) \<Rightarrow>
                              (case (case tryBaseTypeScanPlan dst of
                                       Some (dstType, nextDstType, nextDst) \<Rightarrow>
                                         (case rec st2 nextDst of
                                            (nextPlan, s) \<Rightarrow>
                                              (map_option (baseTypeScanPlan dstType nextDstType)
                                                 nextPlan, s))
                                     | None \<Rightarrow> (None, st2)) of
                                 (Some plan, st3) \<Rightarrow> (Some plan, st3)
                               | (None, st3) \<Rightarrow>
                                   (if typeOf dst = Some (PtrTo EmptyInterface)
                                    then (Some (pointerEmptyInterfaceScanPlan c), st3)
                                    else (Some (dataTypeScanPlan env st3 dt dst), st3))))))))"

lemma tryPointerPointerScanPlan_rank:
  "tryPointerPointerScanPlan dst = Some (dstType, nextDst) \<Longrightarrow> dst_rank nextDst < dst_rank dst"
  by (auto simp: tryPointerPointerScanPlan_def dst_rank_def
      split: option.splits prod.splits gotype.splits goval.splits if_splits)

lemma basic_kind_rank: "kind_of e = BasicKind b \<Longrightarrow> e \<noteq> Basic b \<Longrightarrow> 0 < type_rank e"
  by (cases e) auto

lemma tryBaseTypeScanPlan_rank:
  "tryBaseTypeScanPlan dst = Some (dstType, nextDstType, nextDst)
     \<Longrightarrow> dst_rank nextDst < dst_rank dst"
  by (auto simp: tryBaseTypeScanPlan_def elemKindToBasePointerTypes_def dst_rank_def
      basic_kind_rank
      split: option.splits prod.splits gotype.splits goval.splits if_splits kind.splits)

lemma PlanScan_body_cong [fundef_cong]:
  assumes "\<And>s d. dst_rank d < dst_rank dst \<Longrightarrow> rec s d = rec' s d"
    and "env = env'" and "st = st'" and "oid = oid'" and "formatCode = formatCode'"
    and "dst = dst'"
  shows "PlanScan_body rec env st oid formatCode dst
       = PlanScan_body rec' env' st' oid' formatCode' dst'"
proof -
  have pp: "rec s nextDst = rec' s nextDst"
    if "tryPointerPointerScanPlan dst = Some (dstType, nextDst)" for s dstType nextDst
    using assms(1) tryPointerPointerScanPlan_rank [OF that] by simp
  have bt: "rec s nextDst = rec' s nextDst"
    if "tryBaseTypeScanPlan dst = Some (dstType, nextDstType, nextDst)"
    for s dstType nextDstType nextDst
    using assms(1) tryBaseTypeScanPlan_rank [OF that] by simp
  show ?thesis
    unfolding PlanScan_body_def assms(2-6) [symmetric]
    by (auto simp: pp bt split: option.splits prod.splits)
qed

text \<open>\<^verbatim>\<open>ConnInfo.PlanScan\<close>: the recursion goes to a destination of smaller pointer depth.\<close>

function PlanScan ::
  "env \<Rightarrow> state \<Rightarrow> oid \<Rightarrow> format_code \<Rightarrow> iface \<Rightarrow> scan_plan option \<times> state" where
  "PlanScan env st oid formatCode dst =
     PlanScan_body (\<lambda>s d. PlanScan env s oid formatCode d) env st oid formatCode dst"
  by pat_completeness auto
termination
  by (relation "measure (\<lambda>(env, st, oid, formatCode, dst). dst_rank dst)") auto

declare PlanScan.simps [simp del]

section \<open>Scan plans\<close>

text \<open>
  \<^verbatim>\<open>binary.BigEndian.Uint64\<close> and \<^verbatim>\<open>Uint32\<close>; \<open>None\<close> is the bounds-check panic on a
  short slice.
\<close>

definition BigEndian_Uint64 :: "byte list \<Rightarrow> 64 word option" where
  "BigEndian_Uint64 b =
     (if length b < 8 then None
      else Some (ucast (b ! 7) OR push_bit 8 (ucast (b ! 6)) OR push_bit 16 (ucast (b ! 5))
                 OR push_bit 24 (ucast (b ! 4)) OR push_bit 32 (ucast (b ! 3))
                 OR push_bit 40 (ucast (b ! 2)) OR push_bit 48 (ucast (b ! 1))
                 OR push_bit 56 (ucast (b ! 0))))"

definition BigEndian_Uint32 :: "byte list \<Rightarrow> 32 word option" where
  "BigEndian_Uint32 b =
     (if length b < 4 then None
      else Some (ucast (b ! 3) OR push_bit 8 (ucast (b ! 2)) OR push_bit 16 (ucast (b ! 1))
                 OR push_bit 24 (ucast (b ! 0))))"

type_synonym scan_fun =
  "scan_plan \<Rightarrow> oid \<Rightarrow> format_code \<Rightarrow> byte list option \<Rightarrow> iface \<Rightarrow> state \<Rightarrow> scan_result"

text \<open>\<^verbatim>\<open>*p = v; return nil\<close>, with the panic of a nil pointer.\<close>

definition assign :: "iface \<Rightarrow> goval \<Rightarrow> state \<Rightarrow> scan_result" where
  "assign dst v st =
     (case dst of
        None \<Rightarrow> Panicked
      | Some (t, p) \<Rightarrow>
          (case store p v (heap st) of
             None \<Rightarrow> Panicked
           | Some h \<Rightarrow> Returned None (st\<lparr>heap := h\<rparr>)))"

text \<open>
  \<^verbatim>\<open>newPlan := ci.PlanScan(oid, formatCode, dst); return newPlan.Scan(...)\<close>, where \<open>rec\<close>
  is the dynamic dispatch of \<^verbatim>\<open>ScanPlan.Scan\<close>.
\<close>

definition replan ::
  "env \<Rightarrow> scan_fun \<Rightarrow> oid \<Rightarrow> format_code \<Rightarrow> byte list option \<Rightarrow> iface \<Rightarrow> state \<Rightarrow> scan_result" where
  "replan env rec oid formatCode src dst st =
     (case PlanScan env st oid formatCode dst of
        (None, st1) \<Rightarrow> Panicked
      | (Some newPlan, st1) \<Rightarrow> rec newPlan oid formatCode src dst st1)"

definition scanPlanDstBinaryDecoder_Scan ::
  "env \<Rightarrow> scan_fun \<Rightarrow> oid \<Rightarrow> format_code \<Rightarrow> byte list option \<Rightarrow> iface \<Rightarrow> state \<Rightarrow> scan_result" where
  "scanPlanDstBinaryDecoder_Scan env rec oid formatCode src dst st =
     (if hasInterface env dst BinaryDecoder
      then (case DecodeBinary env dst src st of (err, st1) \<Rightarrow> Returned err st1)
      else replan env rec oid formatCode src dst st)"

definition scanPlanDstTextDecoder_Scan ::
  "env \<Rightarrow> scan_fun \<Rightarrow> oid \<Rightarrow> format_code \<Rightarrow> byte list option \<Rightarrow> iface \<Rightarrow> state \<Rightarrow> scan_result" where
  "scanPlanDstTextDecoder_Scan env rec oid formatCode src dst st =
     (if hasInterface env dst TextDecoder
      then (case DecodeText env dst src st of (err, st1) \<Rightarrow> Returned err st1)
      else replan env rec oid formatCode src dst st)"

text \<open>\<^verbatim>\<open>scanner.Scan(v)\<close> on a destination that implements \<^verbatim>\<open>sql.Scanner\<close>.\<close>

definition scannerScan :: "env \<Rightarrow> iface \<Rightarrow> iface \<Rightarrow> state \<Rightarrow> scan_result" where
  "scannerScan env dst v st =
     (case ScannerScan env dst v (heap st) of (err, h) \<Rightarrow> Returned err (st\<lparr>heap := h\<rparr>))"

text \<open>
  The decode step of the SQL-scanner plan: the cached decoder is called without a nil
  check (a nil interface panics); a format code other than 0 and 1 decodes nothing.
\<close>

definition decodeIntoValue ::
  "env \<Rightarrow> DataType \<Rightarrow> format_code \<Rightarrow> byte list option \<Rightarrow> state \<Rightarrow> (error option \<times> state) outcome" where
  "decodeIntoValue env dt formatCode src st =
     (if formatCode = BinaryFormatCode then
        (if binaryDecoder dt = None then Panic
         else Done (DecodeBinary env (binaryDecoder dt) src st))
      else if formatCode = TextFormatCode then
        (if textDecoder dt = None then Panic
         else Done (DecodeText env (textDecoder dt) src st))
      else Done (None, st))"

definition scanPlanDataTypeSQLScanner_Scan ::
  "env \<Rightarrow> scan_fun \<Rightarrow> DataType \<Rightarrow> oid \<Rightarrow> format_code \<Rightarrow> byte list option \<Rightarrow> iface \<Rightarrow> state
     \<Rightarrow> scan_result" where
  "scanPlanDataTypeSQLScanner_Scan env rec dt oid formatCode src dst st =
     (if \<not> hasInterface env dst SQLScanner then replan env rec oid formatCode src dst st
      else
        (case Codec dt of
           Some c \<Rightarrow>
             (case DecodeDatabaseSQLValue env c oid formatCode src st of
                (Inl err, st1) \<Rightarrow> Returned (Some err) st1
              | (Inr sqlValue, st1) \<Rightarrow> scannerScan env dst sqlValue st1)
         | None \<Rightarrow>
             (case decodeIntoValue env dt formatCode src st of
                Panic \<Rightarrow> Panicked
              | Done (Some err, st1) \<Rightarrow> Returned (Some err) st1
              | Done (None, st1) \<Rightarrow>
                  (case DatabaseSQLValue env (Value dt) st1 of
                     (Inl err, st2) \<Rightarrow> Returned (Some err) st2
                   | (Inr sqlSrc, st2) \<Rightarrow> scannerScan env dst sqlSrc st2))))"

text \<open>
  \<^verbatim>\<open>scanPlanDataTypeAssignTo.Scan\<close>. In its last statement
  \<^verbatim>\<open>if newPlan, sameType := newPlan.(*scanPlanDataTypeAssignTo); !sameType { return newPlan.Scan(...) }\<close>
  the short variable declaration opens a new \<open>newPlan\<close> in the scope of the \<^verbatim>\<open>if\<close>: the
  result of the failed assertion, a nil \<^verbatim>\<open>*scanPlanDataTypeAssignTo\<close>. The method is called
  on that nil receiver, not on the plan \<^verbatim>\<open>PlanScan\<close> returned, and its first access to
  \<^verbatim>\<open>dt.binaryDecoder\<close>, \<^verbatim>\<open>dt.textDecoder\<close> or \<^verbatim>\<open>dt.Value\<close> dereferences nil.
\<close>

definition scanPlanDataTypeAssignTo_Scan ::
  "env \<Rightarrow> scan_fun \<Rightarrow> DataType \<Rightarrow> oid \<Rightarrow> format_code \<Rightarrow> byte list option \<Rightarrow> iface \<Rightarrow> state
     \<Rightarrow> scan_result" where
  "scanPlanDataTypeAssignTo_Scan env rec dt oid formatCode src dst st =
     (if formatCode = BinaryFormatCode \<and> binaryDecoder dt = None
      then Returned (Some BinaryDecoderIsNil) st
      else if formatCode = TextFormatCode \<and> textDecoder dt = None
      then Returned (Some TextDecoderIsNil) st
      else
        (case decodeIntoValue env dt formatCode src st of
           Panic \<Rightarrow> Panicked
         | Done (Some err, st1) \<Rightarrow> Returned (Some err) st1
         | Done (None, st1) \<Rightarrow>
             (if Value dt = None then Panicked
              else
                (case AssignTo env (Value dt) dst (heap st1) of
                   (None, h) \<Rightarrow> Returned None (st1\<lparr>heap := h\<rparr>)
                 | (Some assignToErr, h) \<Rightarrow>
                     (if typeOf dst = Some (PtrTo EmptyInterface)
                      then assign dst (VIface (Get env (Value dt) h)) (st1\<lparr>heap := h\<rparr>)
                      else
                        (case PlanScan env (st1\<lparr>heap := h\<rparr>) oid formatCode dst of
                           (Some (scanPlanDataTypeAssignTo d), st2) \<Rightarrow>
                             Returned (Some assignToErr) st2
                         | (newPlan, st2) \<Rightarrow> Panicked))))))"

text \<open>\<^verbatim>\<open>scanner := dst.(sql.Scanner)\<close> is an unchecked assertion: it panics on any other \<open>dst\<close>.\<close>

definition scanPlanSQLScanner_Scan ::
  "env \<Rightarrow> oid \<Rightarrow> format_code \<Rightarrow> byte list option \<Rightarrow> iface \<Rightarrow> state \<Rightarrow> scan_result" where
  "scanPlanSQLScanner_Scan env oid formatCode src dst st =
     (if \<not> hasInterface env dst SQLScanner then Panicked
      else
        (case src of
           None \<Rightarrow> scannerScan env dst None st
         | Some bs \<Rightarrow>
             if formatCode = BinaryFormatCode
             then scannerScan env dst (Some (SliceOf (Basic GoUint8), VBytes (Some bs))) st
             else scannerScan env dst (Some (Basic GoString, VString bs)) st))"

text \<open>
  \<^verbatim>\<open>scanUnknownType\<close> follows the chain of \<^verbatim>\<open>GetAssignToDstType\<close>, a helper that is not
  part of the source file; the chain is bounded by fuel.
\<close>

fun scanUnknownType ::
  "nat \<Rightarrow> env \<Rightarrow> oid \<Rightarrow> format_code \<Rightarrow> byte list option \<Rightarrow> iface \<Rightarrow> state \<Rightarrow> scan_result" where
  "scanUnknownType 0 env oid formatCode buf dest st = OutOfFuel"
| "scanUnknownType (Suc n) env oid formatCode buf dest st =
     (if typeOf dest = Some (PtrTo (Basic GoString)) then
        (if formatCode = BinaryFormatCode
         then Returned (Some (UnknownOIDBinary oid (typeOf dest))) st
         else assign dest (VString (case buf of None \<Rightarrow> [] | Some bs \<Rightarrow> bs)) st)
      else if typeOf dest = Some (PtrTo (SliceOf (Basic GoUint8))) then
        assign dest (VBytes buf) st
      else
        (case GetAssignToDstType env dest (heap st) of
           (Some nextDst, h) \<Rightarrow>
             scanUnknownType n env oid formatCode buf nextDst (st\<lparr>heap := h\<rparr>)
         | (None, h) \<Rightarrow> Returned (Some (UnknownOID oid (typeOf dest))) (st\<lparr>heap := h\<rparr>)))"

text \<open>
  \<^verbatim>\<open>scanPlanReflection.Scan\<close>: the test for a pointer to a pointer is on the type of
  \<open>dst\<close>; \<^verbatim>\<open>refVal.Elem().Set\<close> panics when \<open>dst\<close> is a nil pointer.
\<close>

definition scanPlanReflection_Scan ::
  "nat \<Rightarrow> env \<Rightarrow> scan_fun \<Rightarrow> oid \<Rightarrow> format_code \<Rightarrow> byte list option \<Rightarrow> iface \<Rightarrow> state
     \<Rightarrow> scan_result" where
  "scanPlanReflection_Scan fuel env rec oid formatCode src dst st =
     (case dst of
        Some (PtrTo (PtrTo t), p) \<Rightarrow>
          (case src of
             None \<Rightarrow> assign dst (VPtr None) st
           | Some bs \<Rightarrow>
               (let a = length (heap st);
                    elemPtr = Some (PtrTo t, VPtr (Some a))
                in case store p (VPtr (Some a)) (heap st) of
                     None \<Rightarrow> Panicked
                   | Some h \<Rightarrow>
                       replan env rec oid formatCode src elemPtr
                         (st\<lparr>heap := h @ [zero_of t]\<rparr>)))
      | _ \<Rightarrow> scanUnknownType fuel env oid formatCode src dst st)"

definition scanPlanBinaryInt64_Scan ::
  "env \<Rightarrow> scan_fun \<Rightarrow> oid \<Rightarrow> format_code \<Rightarrow> byte list option \<Rightarrow> iface \<Rightarrow> state \<Rightarrow> scan_result" where
  "scanPlanBinaryInt64_Scan env rec oid formatCode src dst st =
     (case src of
        None \<Rightarrow> Returned (Some (CannotScanNull (typeOf dst))) st
      | Some bs \<Rightarrow>
          if length bs \<noteq> 8 then Returned (Some (InvalidLengthInt8 (length bs))) st
          else if typeOf dst = Some (PtrTo (Basic GoInt64)) then
            (case BigEndian_Uint64 bs of
               None \<Rightarrow> Panicked
             | Some w \<Rightarrow> assign dst (VInt64 w) st)
          else replan env rec oid formatCode src dst st)"

definition scanPlanBinaryFloat32_Scan ::
  "env \<Rightarrow> scan_fun \<Rightarrow> oid \<Rightarrow> format_code \<Rightarrow> byte list option \<Rightarrow> iface \<Rightarrow> state \<Rightarrow> scan_result" where
  "scanPlanBinaryFloat32_Scan env rec oid formatCode src dst st =
     (case src of
        None \<Rightarrow> Returned (Some (CannotScanNull (typeOf dst))) st
      | Some bs \<Rightarrow>
          if length bs \<noteq> 4 then Returned (Some (InvalidLengthInt4 (length bs))) st
          else if typeOf dst = Some (PtrTo (Basic GoFloat32)) then
            (case BigEndian_Uint32 bs of
               None \<Rightarrow> Panicked
             | Some w \<Rightarrow> assign dst (VFloat32 w) st)
          else replan env rec oid formatCode src dst st)"

definition scanPlanBinaryFloat64_Scan ::
  "env \<Rightarrow> scan_fun \<Rightarrow> oid \<Rightarrow> format_code \<Rightarrow> byte list option \<Rightarrow> iface \<Rightarrow> state \<Rightarrow> scan_result" where
  "scanPlanBinaryFloat64_Scan env rec oid formatCode src dst st =
     (case src of
        None \<Rightarrow> Returned (Some (CannotScanNull (typeOf dst))) st
      | Some bs \<Rightarrow>
          if length bs \<noteq> 8 then Returned (Some (InvalidLengthInt8 (length bs))) st
          else if typeOf dst = Some (PtrTo (Basic GoFloat64)) then
            (case BigEndian_Uint64 bs of
               None \<Rightarrow> Panicked
             | Some w \<Rightarrow> assign dst (VFloat64 w) st)
          else replan env rec oid formatCode src dst st)"

definition scanPlanBinaryBytes_Scan ::
  "env \<Rightarrow> scan_fun \<Rightarrow> oid \<Rightarrow> format_code \<Rightarrow> byte list option \<Rightarrow> iface \<Rightarrow> state \<Rightarrow> scan_result" where
  "scanPlanBinaryBytes_Scan env rec oid formatCode src dst st =
     (if typeOf dst = Some (PtrTo (SliceOf (Basic GoUint8))) then assign dst (VBytes src) st
      else replan env rec oid formatCode src dst st)"

definition scanPlanString_Scan ::
  "env \<Rightarrow> scan_fun \<Rightarrow> oid \<Rightarrow> format_code \<Rightarrow> byte list option \<Rightarrow> iface \<Rightarrow> state \<Rightarrow> scan_result" where
  "scanPlanString_Scan env rec oid formatCode src dst st =
     (case src of
        None \<Rightarrow> Returned (Some (CannotScanNull (typeOf dst))) st
      | Some bs \<Rightarrow>
          if typeOf dst = Some (PtrTo (Basic GoString)) then assign dst (VString bs) st
          else replan env rec oid formatCode src dst st)"

text \<open>
  \<^verbatim>\<open>pointerPointerScanPlan.Scan\<close>. \<^verbatim>\<open>el\<close> is the cell \<open>dst\<close> points to; on a nil \<open>dst\<close> it
  is the zero Value and \<^verbatim>\<open>el.Type()\<close> panics. \<^verbatim>\<open>el.Type().Elem()\<close> panics unless the cell
  holds a pointer (or slice, whose \<^verbatim>\<open>Set\<close> then panics).
\<close>

definition pointerPointerScanPlan_Scan ::
  "env \<Rightarrow> scan_fun \<Rightarrow> gotype \<Rightarrow> scan_plan \<Rightarrow> oid \<Rightarrow> format_code \<Rightarrow> byte list option \<Rightarrow> iface
     \<Rightarrow> state \<Rightarrow> scan_result" where
  "pointerPointerScanPlan_Scan env rec dstType next oid formatCode src dst st =
     (if Some dstType \<noteq> typeOf dst then replan env rec oid formatCode src dst st
      else
        (case dst of
           Some (PtrTo e, VPtr (Some p)) \<Rightarrow>
             (case src of
                None \<Rightarrow> assign dst (zero_of e) st
              | Some bs \<Rightarrow>
                  (case e of
                     PtrTo t \<Rightarrow>
                       (let a = length (heap st)
                        in case store (VPtr (Some p)) (VPtr (Some a)) (heap st) of
                             None \<Rightarrow> Panicked
                           | Some h \<Rightarrow>
                               rec next oid formatCode src (Some (e, VPtr (Some a)))
                                 (st\<lparr>heap := h @ [zero_of t]\<rparr>))
                   | _ \<Rightarrow> Panicked))
         | _ \<Rightarrow> Panicked))"

text \<open>
  \<^verbatim>\<open>reflect.Value.Convert\<close> between pointer types whose base types have the same
  underlying type, the conversion \<^verbatim>\<open>tryBaseTypeScanPlan\<close> sets up; \<open>None\<close> is its panic.
  Conversions between other types do not occur in a plan that \<^verbatim>\<open>PlanScan\<close> built and are
  not modelled.
\<close>

definition convertPtr :: "iface \<Rightarrow> gotype \<Rightarrow> iface option" where
  "convertPtr v T =
     (case v of
        Some (PtrTo e, x) \<Rightarrow>
          (case T of
             PtrTo b \<Rightarrow> if underlying e = underlying b then Some (Some (T, x)) else None
           | _ \<Rightarrow> None)
      | _ \<Rightarrow> None)"

definition baseTypeScanPlan_Scan ::
  "env \<Rightarrow> scan_fun \<Rightarrow> gotype \<Rightarrow> gotype \<Rightarrow> scan_plan \<Rightarrow> oid \<Rightarrow> format_code \<Rightarrow> byte list option
     \<Rightarrow> iface \<Rightarrow> state \<Rightarrow> scan_result" where
  "baseTypeScanPlan_Scan env rec dstType nextDstType next oid formatCode src dst st =
     (if Some dstType \<noteq> typeOf dst then replan env rec oid formatCode src dst st
      else
        (case convertPtr dst nextDstType of
           None \<Rightarrow> Panicked
         | Some nextDst \<Rightarrow> rec next oid formatCode src nextDst st))"

text \<open>\<^verbatim>\<open>ptrAny := dst.(*interface{})\<close> is an unchecked assertion, made after the decoding.\<close>

definition pointerEmptyInterfaceScanPlan_Scan ::
  "env \<Rightarrow> nat \<Rightarrow> oid \<Rightarrow> format_code \<Rightarrow> byte list option \<Rightarrow> iface \<Rightarrow> state \<Rightarrow> scan_result" where
  "pointerEmptyInterfaceScanPlan_Scan env codec oid formatCode src dst st =
     (case DecodeValue env codec oid formatCode src st of
        (Inl err, st1) \<Rightarrow> Returned (Some err) st1
      | (Inr v, st1) \<Rightarrow>
          if typeOf dst = Some (PtrTo EmptyInterface) then assign dst (VIface v) st1
          else Panicked)"

text \<open>
  The dynamic dispatch of \<^verbatim>\<open>ScanPlan.Scan\<close>. A plan may re-plan and scan again; the
  fuel bounds the depth of these calls, and \<open>OutOfFuel\<close> is the result when it is used up.
\<close>

primrec ScanPlan_Scan ::
  "nat \<Rightarrow> env \<Rightarrow> scan_plan \<Rightarrow> oid \<Rightarrow> format_code \<Rightarrow> byte list option \<Rightarrow> iface \<Rightarrow> state
     \<Rightarrow> scan_result" where
  "ScanPlan_Scan 0 env plan oid formatCode src dst st = OutOfFuel"
| "ScanPlan_Scan (Suc n) env plan oid formatCode src dst st =
     (case plan of
        scanPlanDstResultDecoder \<Rightarrow> replan env (ScanPlan_Scan n env) oid formatCode src dst st
      | scanPlanDstBinaryDecoder \<Rightarrow>
          scanPlanDstBinaryDecoder_Scan env (ScanPlan_Scan n env) oid formatCode src dst st
      | scanPlanDstTextDecoder \<Rightarrow>
          scanPlanDstTextDecoder_Scan env (ScanPlan_Scan n env) oid formatCode src dst st
      | scanPlanDataTypeSQLScanner dt \<Rightarrow>
          scanPlanDataTypeSQLScanner_Scan env (ScanPlan_Scan n env) dt oid formatCode src dst st
      | scanPlanDataTypeAssignTo dt \<Rightarrow>
          scanPlanDataTypeAssignTo_Scan env (ScanPlan_Scan n env) dt oid formatCode src dst st
      | scanPlanSQLScanner \<Rightarrow> scanPlanSQLScanner_Scan env oid formatCode src dst st
      | scanPlanReflection \<Rightarrow>
          scanPlanReflection_Scan (Suc n) env (ScanPlan_Scan n env) oid formatCode src dst st
      | scanPlanBinaryInt64 \<Rightarrow>
          scanPlanBinaryInt64_Scan env (ScanPlan_Scan n env) oid formatCode src dst st
      | scanPlanBinaryFloat32 \<Rightarrow>
          scanPlanBinaryFloat32_Scan env (ScanPlan_Scan n env) oid formatCode src dst st
      | scanPlanBinaryFloat64 \<Rightarrow>
          scanPlanBinaryFloat64_Scan env (ScanPlan_Scan n env) oid formatCode src dst st
      | scanPlanBinaryBytes \<Rightarrow>
          scanPlanBinaryBytes_Scan env (ScanPlan_Scan n env) oid formatCode src dst st
      | scanPlanString \<Rightarrow>
          scanPlanString_Scan env (ScanPlan_Scan n env) oid formatCode src dst st
      | pointerPointerScanPlan dstType next \<Rightarrow>
          pointerPointerScanPlan_Scan env (ScanPlan_Scan n env) dstType next oid formatCode
            src dst st
      | baseTypeScanPlan dstType nextDstType next \<Rightarrow>
          baseTypeScanPlan_Scan env (ScanPlan_Scan n env) dstType nextDstType next oid
            formatCode src dst st
      | pointerEmptyInterfaceScanPlan codec \<Rightarrow>
          pointerEmptyInterfaceScanPlan_Scan env codec oid formatCode src dst st
      | scanPlanTextAnyToTextScanner \<Rightarrow> textScannerPlan_Scan env oid formatCode src dst st
      | codecScanPlan k \<Rightarrow> codecScanPlan_Scan env k oid formatCode src dst st)"

text \<open>\<^verbatim>\<open>ConnInfo.Scan\<close>.\<close>

definition Scan ::
  "nat \<Rightarrow> env \<Rightarrow> state \<Rightarrow> oid \<Rightarrow> format_code \<Rightarrow> byte list option \<Rightarrow> iface \<Rightarrow> scan_result" where
  "Scan fuel env st oid formatCode src dst =
     (if dst = None then Returned None st
      else replan env (ScanPlan_Scan fuel env) oid formatCode src dst st)"

section \<open>Encode planning and encode plans\<close>

text \<open>
  \<^verbatim>\<open>tryDerefPointerEncodePlan\<close>: \<^verbatim>\<open>reflect.TypeOf(value).Kind()\<close> panics on the nil
  interface. The next value is the zero value of the pointee type as an interface,
  which is the nil interface when the pointee type is \<^verbatim>\<open>interface{}\<close>.
\<close>

definition tryDerefPointerEncodePlan :: "iface \<Rightarrow> iface option outcome" where
  "tryDerefPointerEncodePlan v =
     (case v of
        None \<Rightarrow> Panic
      | Some (PtrTo e, x) \<Rightarrow>
          Done (Some (if e = EmptyInterface then None else Some (e, zero_of e)))
      | Some (t, x) \<Rightarrow> Done None)"

definition kindToBaseTypes :: "kind \<Rightarrow> gotype option" where
  "kindToBaseTypes k =
     (case k of
        BasicKind b \<Rightarrow> if b = GoBool then None else Some (Basic b)
      | _ \<Rightarrow> None)"

definition tryBaseTypeEncodePlan :: "iface \<Rightarrow> (gotype \<times> iface) option" where
  "tryBaseTypeEncodePlan v =
     (case v of
        None \<Rightarrow> None
      | Some (t, x) \<Rightarrow>
          (case kindToBaseTypes (kind_of t) of
             Some nextValueType \<Rightarrow>
               if t \<noteq> nextValueType then Some (nextValueType, Some (nextValueType, x)) else None
           | None \<Rightarrow> None))"

text \<open>The body of \<^verbatim>\<open>ConnInfo.PlanEncode\<close>, with \<open>rec\<close> for its recursive calls.\<close>

definition PlanEncode_body ::
  "(state \<Rightarrow> iface \<Rightarrow> (encode_plan option \<times> state) outcome)
     \<Rightarrow> env \<Rightarrow> state \<Rightarrow> oid \<Rightarrow> format_code \<Rightarrow> iface \<Rightarrow> (encode_plan option \<times> state) outcome" where
  "PlanEncode_body rec env st oid format v =
     (case (if oid = 0 then DataTypeForValue env st v
            else (DataTypeForOID (ci st) oid, st)) of
        (None, st1) \<Rightarrow> Done (None, st1)
      | (Some dt, st1) \<Rightarrow>
          (case Codec dt of
             None \<Rightarrow> Done (None, st1)
           | Some c \<Rightarrow>
               (case CodecPlanEncode env c (ci st1) oid format v of
                  Some plan \<Rightarrow> Done (Some plan, st1)
                | None \<Rightarrow>
                    (case (case tryDerefPointerEncodePlan v of
                             Panic \<Rightarrow> Panic
                           | Done None \<Rightarrow> Done (None, st1)
                           | Done (Some nextValue) \<Rightarrow>
                               (case rec st1 nextValue of
                                  Panic \<Rightarrow> Panic
                                | Done (nextPlan, s) \<Rightarrow>
                                    Done (map_option derefPointerEncodePlan nextPlan, s))) of
                       Panic \<Rightarrow> Panic
                     | Done (Some plan, st2) \<Rightarrow> Done (Some plan, st2)
                     | Done (None, st2) \<Rightarrow>
                         (case tryBaseTypeEncodePlan v of
                            None \<Rightarrow> Done (None, st2)
                          | Some (nextValueType, nextValue) \<Rightarrow>
                              (case rec st2 nextValue of
                                 Panic \<Rightarrow> Panic
                               | Done (nextPlan, s) \<Rightarrow>
                                   Done (map_option (baseTypeEncodePlan nextValueType) nextPlan,
                                         s)))))))"

lemma tryDerefPointerEncodePlan_rank:
  "tryDerefPointerEncodePlan v = Done (Some nextValue) \<Longrightarrow> dst_rank nextValue < dst_rank v"
  by (auto simp: tryDerefPointerEncodePlan_def dst_rank_def
      split: option.splits prod.splits gotype.splits if_splits)

lemma tryBaseTypeEncodePlan_rank:
  "tryBaseTypeEncodePlan v = Some (nextValueType, nextValue) \<Longrightarrow> dst_rank nextValue < dst_rank v"
  by (auto simp: tryBaseTypeEncodePlan_def kindToBaseTypes_def dst_rank_def basic_kind_rank
      split: option.splits prod.splits if_splits kind.splits)

lemma PlanEncode_body_cong [fundef_cong]:
  assumes "\<And>s d. dst_rank d < dst_rank v \<Longrightarrow> rec s d = rec' s d"
    and "env = env'" and "st = st'" and "oid = oid'" and "format = format'" and "v = v'"
  shows "PlanEncode_body rec env st oid format v = PlanEncode_body rec' env' st' oid' format' v'"
proof -
  have dp: "rec s nextValue = rec' s nextValue"
    if "tryDerefPointerEncodePlan v = Done (Some nextValue)" for s nextValue
    using assms(1) tryDerefPointerEncodePlan_rank [OF that] by simp
  have bt: "rec s nextValue = rec' s nextValue"
    if "tryBaseTypeEncodePlan v = Some (nextValueType, nextValue)" for s nextValueType nextValue
    using assms(1) tryBaseTypeEncodePlan_rank [OF that] by simp
  show ?thesis
    unfolding PlanEncode_body_def assms(2-6) [symmetric]
    by (auto simp: dp bt split: option.splits prod.splits outcome.splits)
qed

function PlanEncode ::
  "env \<Rightarrow> state \<Rightarrow> oid \<Rightarrow> format_code \<Rightarrow> iface \<Rightarrow> (encode_plan option \<times> state) outcome" where
  "PlanEncode env st oid format v =
     PlanEncode_body (\<lambda>s d. PlanEncode env s oid format d) env st oid format v"
  by pat_completeness auto
termination
  by (relation "measure (\<lambda>(env, st, oid, format, v). dst_rank v)") auto

declare PlanEncode.simps [simp del]

text \<open>\<^verbatim>\<open>ptr.Elem().Interface()\<close>: the contents of a cell as an interface value.\<close>

definition load :: "gotype \<Rightarrow> goval \<Rightarrow> iface" where
  "load e v = (if e = EmptyInterface then (case v of VIface x \<Rightarrow> x | _ \<Rightarrow> None) else Some (e, v))"

type_synonym encode_result = "((byte list option \<times> error option) \<times> goval list) outcome"

text \<open>
  \<^verbatim>\<open>EncodePlan.Encode\<close>. \<^verbatim>\<open>reflect.Value.IsNil\<close> panics on a value that is neither a
  pointer nor a slice (nor another nilable kind); \<^verbatim>\<open>Elem\<close> panics on a slice. The
  conversion of the base-type plan keeps the representation of the value.
\<close>

fun EncodePlan_Encode ::
  "env \<Rightarrow> encode_plan \<Rightarrow> iface \<Rightarrow> byte list option \<Rightarrow> goval list \<Rightarrow> encode_result" where
  "EncodePlan_Encode env (derefPointerEncodePlan next) v buf h =
     (case v of
        Some (PtrTo e, VPtr None) \<Rightarrow> Done ((None, None), h)
      | Some (PtrTo e, VPtr (Some a)) \<Rightarrow>
          if a < length h then EncodePlan_Encode env next (load e (h ! a)) buf h else Panic
      | Some (SliceOf e, VBytes None) \<Rightarrow> Done ((None, None), h)
      | _ \<Rightarrow> Panic)"
| "EncodePlan_Encode env (baseTypeEncodePlan nextValueType next) v buf h =
     (case v of
        Some (t, x) \<Rightarrow>
          if underlying t = underlying nextValueType
          then EncodePlan_Encode env next (Some (nextValueType, x)) buf h
          else Panic
      | None \<Rightarrow> Panic)"
| "EncodePlan_Encode env (codecEncodePlan k) v buf h = codecEncodePlan_Encode env k v buf h"

text \<open>\<^verbatim>\<open>ConnInfo.Encode\<close>.\<close>

definition Encode ::
  "env \<Rightarrow> state \<Rightarrow> oid \<Rightarrow> format_code \<Rightarrow> iface \<Rightarrow> byte list option
     \<Rightarrow> ((byte list option \<times> error option) \<times> state) outcome" where
  "Encode env st oid formatCode v buf =
     (if v = None then Done ((None, None), st)
      else
        (case PlanEncode env st oid formatCode v of
           Panic \<Rightarrow> Panic
         | Done (None, st1) \<Rightarrow> Done ((None, Some (UnableToEncode v)), st1)
         | Done (Some plan, st1) \<Rightarrow>
             (case EncodePlan_Encode env plan v buf (heap st1) of
                Panic \<Rightarrow> Panic
              | Done (r, h) \<Rightarrow> Done (r, st1\<lparr>heap := h\<rparr>))))"

section \<open>Histories of registry calls\<close>

text \<open>
  The fields of a ConnInfo are private: every registry is the result of a sequence of
  calls on a new one.
\<close>

datatype registry_op =
  OpRegisterDataType DataType
  | OpRegisterDefaultPgType iface string
  | OpPreferAssignTo iface
  | OpDataTypeForValue iface

fun apply_op :: "env \<Rightarrow> state \<Rightarrow> registry_op \<Rightarrow> state outcome" where
  "apply_op env st (OpRegisterDataType t) = RegisterDataType env st t"
| "apply_op env st (OpRegisterDefaultPgType v name) =
     Done (st\<lparr>ci := RegisterDefaultPgType (ci st) v name\<rparr>)"
| "apply_op env st (OpPreferAssignTo v) =
     Done (st\<lparr>ci := PreferAssignToOverSQLScannerForType (ci st) v\<rparr>)"
| "apply_op env st (OpDataTypeForValue v) = Done (snd (DataTypeForValue env st v))"

fun apply_ops :: "env \<Rightarrow> state \<Rightarrow> registry_op list \<Rightarrow> state outcome" where
  "apply_ops env st [] = Done st"
| "apply_ops env st (x # xs) =
     (case apply_op env st x of Panic \<Rightarrow> Panic | Done st1 \<Rightarrow> apply_ops env st1 xs)"

text \<open>A later registration that shares the OID or the name of \<open>t\<close>.\<close>

fun overwrites :: "DataType \<Rightarrow> registry_op \<Rightarrow> bool" where
  "overwrites t (OpRegisterDataType u) = (OID u = OID t \<or> Name u = Name t)"
| "overwrites t x = False"

text \<open>A later \<^verbatim>\<open>RegisterDefaultPgType\<close> for the native type \<open>ty\<close>.\<close>

fun redefines :: "gotype option \<Rightarrow> registry_op \<Rightarrow> bool" where
  "redefines ty (OpRegisterDefaultPgType v name) = (typeOf v = ty)"
| "redefines ty x = False"





text \<open>The value of a byte sequence read as a big-endian number.\<close>

definition bigEndianValue :: "byte list \<Rightarrow> int" where
  "bigEndianValue bs = foldl (\<lambda>acc b. acc * 256 + uint b) 0 bs"

section \<open>Example environments and states\<close>

text \<open>
  An environment in which no type has methods, every codec declines and every
  \<^verbatim>\<open>AssignTo\<close> fails.
\<close>

definition env0 :: env where
  "env0 =
     \<lparr> implements = (\<lambda>t i. False),
       NewTypeValue = (\<lambda>v h. (v, h)),
       TypeName = (\<lambda>v. []),
       AssignTo = (\<lambda>v d h. (Some (ExternalError 7), h)),
       Get = (\<lambda>v h. None),
       DecodeBinary = (\<lambda>d src st. (None, st)),
       DecodeText = (\<lambda>d src st. (None, st)),
       ScannerScan = (\<lambda>d v h. (None, h)),
       DatabaseSQLValue = (\<lambda>v st. (Inr None, st)),
       GetAssignToDstType = (\<lambda>d h. (None, h)),
       PreferredFormat = (\<lambda>c. 1),
       CodecPlanScan = (\<lambda>c r oid f d a. None),
       CodecPlanEncode = (\<lambda>c r oid f v. None),
       DecodeDatabaseSQLValue = (\<lambda>c oid f src st. (Inr None, st)),
       DecodeValue = (\<lambda>c oid f src st. (Inr None, st)),
       codecScanPlan_Scan = (\<lambda>k oid f src d st. Returned None st),
       textScannerPlan_Scan = (\<lambda>oid f src d st. Returned None st),
       codecEncodePlan_Encode = (\<lambda>k v buf h. Done ((buf, None), h)) \<rparr>"

text \<open>The same, but \<^verbatim>\<open>*EnumType\<close> is a TypeValue whose \<^verbatim>\<open>TypeName()\<close> is \<^verbatim>\<open>"mood"\<close>.\<close>

definition env1 :: env where
  "env1 =
     env0\<lparr> implements := (\<lambda>t i. t = PtrTo (StructType ''EnumType'') \<and> i = TypeValue),
           TypeName := (\<lambda>v. ''mood'') \<rparr>"

definition int8DataType :: DataType where
  "int8DataType =
     \<lparr> Value = None, textDecoder = None, binaryDecoder = None, Codec = Some 0,
       Name = ''int8'', OID = 20 \<rparr>"

text \<open>A DataType with a Value prototype (at address 0) and no codec.\<close>

definition textValue :: iface where
  "textValue = Some (PtrTo (StructType ''Text''), VPtr (Some 0))"

definition textDataType :: DataType where
  "textDataType =
     \<lparr> Value = textValue, textDecoder = textValue, binaryDecoder = textValue, Codec = None,
       Name = ''text'', OID = 25 \<rparr>"

text \<open>A memory of three cells: a Value object, a string and a byte slice.\<close>

definition state0 :: state where
  "state0 = \<lparr> ci = newConnInfo, heap = [VOther 0, VString [], VBytes (Some [1])] \<rparr>"

definition stringDst :: iface where
  "stringDst = Some (PtrTo (Basic GoString), VPtr (Some 1))"

definition bytesDst :: iface where
  "bytesDst = Some (PtrTo (SliceOf (Basic GoUint8)), VPtr (Some 2))"

definition state1 :: state where
  "state1 = (case RegisterDataType env0 state0 int8DataType of Done s \<Rightarrow> s | Panic \<Rightarrow> state0)"

text \<open>
  A registry in which OID 25 is registered with a codec (codec 1, which under \<open>env0\<close>
  declines every destination), and a memory with a string and a \<^verbatim>\<open>*string\<close> variable.
\<close>

definition textCodecDataType :: DataType where
  "textCodecDataType =
     \<lparr> Value = None, textDecoder = None, binaryDecoder = None, Codec = Some 1,
       Name = ''text'', OID = 25 \<rparr>"

definition state3 :: state where
  "state3 =
     (case RegisterDataType env0 \<lparr> ci = newConnInfo, heap = [VString [104], VPtr (Some 0)] \<rparr>
             textCodecDataType of
        Done s \<Rightarrow> s
      | Panic \<Rightarrow> state0)"

definition stringPtrDst :: iface where
  "stringPtrDst = Some (PtrTo (PtrTo (Basic GoString)), VPtr (Some 1))"


text \<open>
  An environment whose codecs encode an \<^verbatim>\<open>int32\<close> and decline every other value, and a
  registry in which OID 23 is registered with such a codec.
\<close>

definition env2 :: env where
  "env2 =
     env0\<lparr> CodecPlanEncode :=
             (\<lambda>c r oid f v. if typeOf v = Some (Basic GoInt32) then Some (codecEncodePlan 0)
                             else None) \<rparr>"

definition int4DataType :: DataType where
  "int4DataType =
     \<lparr> Value = None, textDecoder = None, binaryDecoder = None, Codec = Some 0,
       Name = ''int4'', OID = 23 \<rparr>"

definition state4 :: state where
  "state4 =
     \<lparr> ci = newConnInfo\<lparr> oidToDataType := DAList.update 23 int4DataType DAList.empty,
                         nameToDataType := DAList.update ''int4'' int4DataType DAList.empty,
                         oidToFormatCode := DAList.update 23 1 DAList.empty \<rparr>,
       heap = [VPtr None] \<rparr>"

text \<open>
  Two histories: int8 is registered and made the default of a native type, of \<^verbatim>\<open>int64\<close>
  in the first and of the TypeValue \<^verbatim>\<open>*EnumType\<close> in the second.
\<close>

definition int64Value :: iface where
  "int64Value = Some (Basic GoInt64, VInt64 0)"

definition defaultHistory :: "iface \<Rightarrow> registry_op list" where
  "defaultHistory v = [OpRegisterDataType int8DataType, OpRegisterDefaultPgType v ''int8'']"

definition state5 :: state where
  "state5 = (case apply_ops env0 state0 (defaultHistory int64Value) of
               Done s \<Rightarrow> s | Panic \<Rightarrow> state0)"

definition enumValue :: iface where
  "enumValue = Some (PtrTo (StructType ''EnumType''), VPtr (Some 0))"

definition state6 :: state where
  "state6 = (case apply_ops env1 state0 (defaultHistory enumValue) of
               Done s \<Rightarrow> s | Panic \<Rightarrow> state0)"



section \<open>Invariants and relations used in the proofs\<close>

text \<open>
  Two invariants of every registry made by calls on a new one: a DataType found under
  a name carries that name, and the derived index is absent or is what
  \<^verbatim>\<open>buildReflectTypeToDataType\<close> builds from the other maps.
\<close>

definition names_ok :: "ConnInfo \<Rightarrow> bool" where
  "names_ok c = (\<forall>n dt. DAList.lookup (nameToDataType c) n = Some dt \<longrightarrow> Name dt = n)"

definition cache_ok :: "env \<Rightarrow> ConnInfo \<Rightarrow> bool" where
  "cache_ok env c =
     (reflectTypeToDataType c = None
      \<or> reflectTypeToDataType c = reflectTypeToDataType (buildReflectTypeToDataType env c))"





section \<open>The registry: lookups after a registration\<close>

lemma RegisterDataType_lookup:
  assumes "RegisterDataType env st t = Done st1"
  shows "\<exists>dt. DataTypeForOID (ci st1) (OID t) = Some dt
            \<and> DataTypeForName (ci st1) (Name t) = Some dt
            \<and> OID dt = OID t \<and> Name dt = Name t \<and> Codec dt = Codec t"
  using assms
  by (auto simp: RegisterDataType_def DataTypeForOID_def DataTypeForName_def Let_def
      split: outcome.splits prod.splits if_splits)

lemma apply_op_keeps:
  assumes "apply_op env st x = Done st1" and "\<not> overwrites t x"
  shows "DataTypeForOID (ci st1) (OID t) = DataTypeForOID (ci st) (OID t)
       \<and> DataTypeForName (ci st1) (Name t) = DataTypeForName (ci st) (Name t)"
  using assms
  by (cases x)
    (auto simp: RegisterDataType_def DataTypeForOID_def DataTypeForName_def Let_def
      RegisterDefaultPgType_def PreferAssignToOverSQLScannerForType_def DataTypeForValue_def
      buildReflectTypeToDataType_def
      split: outcome.splits prod.splits if_splits option.splits)

lemma apply_ops_keeps:
  assumes "apply_ops env st xs = Done st1" and "\<forall>x \<in> set xs. \<not> overwrites t x"
  shows "DataTypeForOID (ci st1) (OID t) = DataTypeForOID (ci st) (OID t)
       \<and> DataTypeForName (ci st1) (Name t) = DataTypeForName (ci st) (Name t)"
  using assms
proof (induction xs arbitrary: st)
  case Nil
  then show ?case by simp
next
  case (Cons x xs)
  from Cons.prems(1) obtain st0 where a: "apply_op env st x = Done st0"
    and b: "apply_ops env st0 xs = Done st1"
    by (auto split: outcome.splits)
  from Cons.prems(2) have nx: "\<not> overwrites t x" and nxs: "\<forall>x \<in> set xs. \<not> overwrites t x"
    by simp_all
  from Cons.IH [OF b nxs] apply_op_keeps [OF a nx] show ?case by simp
qed

text \<open>
  C4. After \<^verbatim>\<open>RegisterDataType(t)\<close>, and after any later registry calls none of which
  registers a DataType with the OID or the name of \<open>t\<close>, \<^verbatim>\<open>DataTypeForOID(t.OID)\<close> and
  \<^verbatim>\<open>DataTypeForName(t.Name)\<close> both find a DataType, and it is the same one; it carries
  the OID and the name of \<open>t\<close>.
\<close>

theorem registered_found_by_oid_and_name:
  assumes "RegisterDataType env st t = Done st1"
    and "apply_ops env st1 later = Done st2"
    and "\<forall>x \<in> set later. \<not> overwrites t x"
  shows "\<exists>dt. DataTypeForOID (ci st2) (OID t) = Some dt
            \<and> DataTypeForName (ci st2) (Name t) = Some dt
            \<and> OID dt = OID t \<and> Name dt = Name t"
  using RegisterDataType_lookup [OF assms(1)] apply_ops_keeps [OF assms(2,3)]
  by auto

lemma state1_registered: "RegisterDataType env0 state0 int8DataType = Done state1"
  by (simp add: state1_def RegisterDataType_def int8DataType_def Let_def)

theorem registered_found_by_oid_and_name_witness:
  "\<exists>st2 dt. apply_ops env0 state1
        [OpRegisterDefaultPgType (Some (Basic GoInt64, VInt64 0)) ''int8'',
         OpRegisterDataType textDataType] = Done st2
     \<and> DataTypeForOID (ci st2) (OID int8DataType) = Some dt
     \<and> DataTypeForName (ci st2) (Name int8DataType) = Some dt
     \<and> OID dt = 20 \<and> Name dt = ''int8''"
proof -
  let ?later = "[OpRegisterDefaultPgType (Some (Basic GoInt64, VInt64 0)) ''int8'',
                 OpRegisterDataType textDataType]"
  obtain st2 where ops: "apply_ops env0 state1 ?later = Done st2"
    by (simp add: RegisterDataType_def NewValue_def hasInterface_def env0_def textDataType_def
        textValue_def Let_def)
  have fresh: "\<forall>x \<in> set ?later. \<not> overwrites int8DataType x"
    by (simp add: int8DataType_def textDataType_def)
  from registered_found_by_oid_and_name [OF state1_registered ops fresh] ops
  show ?thesis by (auto simp: int8DataType_def)
qed

section \<open>The binary fast path for int8\<close>

lemma shift_or_byte:
  fixes a :: "64 word" and b :: byte
  shows "push_bit 8 a OR ucast b = a * 256 + ucast b"
proof -
  have "push_bit 8 a + ucast b = push_bit 8 a OR ucast b"
    by (rule disjunctive_add) (auto simp: bit_simps dest: bit_imp_le_length)
  then show ?thesis by (simp add: push_bit_eq_mult)
qed

lemma BigEndian_Uint64_horner:
  "BigEndian_Uint64 [b0, b1, b2, b3, b4, b5, b6, b7] =
     Some (((((((ucast b0 * 256 + ucast b1) * 256 + ucast b2) * 256 + ucast b3) * 256
               + ucast b4) * 256 + ucast b5) * 256 + ucast b6) * 256 + ucast b7)"
proof -
  have "ucast b7 OR push_bit 8 (ucast b6) OR push_bit 16 (ucast b5)
          OR push_bit 24 (ucast b4) OR push_bit 32 (ucast b3) OR push_bit 40 (ucast b2)
          OR push_bit 48 (ucast b1) OR push_bit 56 (ucast b0)
      = push_bit 8 (push_bit 8 (push_bit 8 (push_bit 8 (push_bit 8 (push_bit 8 (push_bit 8
          (ucast b0 :: 64 word) OR ucast b1) OR ucast b2) OR ucast b3) OR ucast b4)
          OR ucast b5) OR ucast b6) OR ucast b7"
    by (simp add: ac_simps)
  then show ?thesis
    by (simp add: BigEndian_Uint64_def shift_or_byte)
qed

text \<open>The eight bytes, read by the shifts and ORs of the library, are the big-endian number.\<close>

lemma BigEndian_Uint64_value:
  assumes "length bs = 8"
  shows "BigEndian_Uint64 bs = Some (word_of_int (bigEndianValue bs))"
proof -
  from assms obtain b0 b1 b2 b3 b4 b5 b6 b7 where bs: "bs = [b0, b1, b2, b3, b4, b5, b6, b7]"
    by (auto simp: length_Suc_conv eval_nat_numeral)
  show ?thesis
    unfolding bs BigEndian_Uint64_horner
    by (simp add: bigEndianValue_def of_int_uint)
qed

lemma PlanScan_fast:
  "fastPathScanPlan env oid formatCode dst = Some plan
     \<Longrightarrow> PlanScan env st oid formatCode dst = (Some plan, st)"
  by (simp add: PlanScan.simps PlanScan_body_def)

lemma assign_allocated:
  "a < length (heap st)
     \<Longrightarrow> assign (Some (t, VPtr (Some a))) v st = Returned None (st\<lparr>heap := (heap st)[a := v]\<rparr>)"
  by (simp add: assign_def store_def)

text \<open>
  C1. For every registry (with or without int8 registered), \<^verbatim>\<open>Scan\<close> of OID 20 in binary
  format into a \<^verbatim>\<open>*int64\<close> that points to a variable is planned as
  \<^verbatim>\<open>scanPlanBinaryInt64\<close>; on a non-nil \<open>src\<close> of length 8 it stores the 64-bit word of the
  big-endian value of \<open>src\<close> (the \<^verbatim>\<open>int64\<close> with those bits) and returns no error; on a
  non-nil \<open>src\<close> of another length it returns the invalid-length error and changes
  nothing.
\<close>

theorem scan_int8_binary_into_int64:
  assumes "a < length (heap st)"
  shows "PlanScan env st Int8OID BinaryFormatCode (Some (PtrTo (Basic GoInt64), VPtr (Some a)))
           = (Some scanPlanBinaryInt64, st)
       \<and> Scan (Suc n) env st Int8OID BinaryFormatCode (Some src)
             (Some (PtrTo (Basic GoInt64), VPtr (Some a)))
           = (if length src = 8
              then Returned None
                     (st\<lparr>heap := (heap st)[a := VInt64 (word_of_int (bigEndianValue src))]\<rparr>)
              else Returned (Some (InvalidLengthInt8 (length src))) st)"
proof -
  let ?dst = "Some (PtrTo (Basic GoInt64), VPtr (Some a))"
  have fast: "fastPathScanPlan env Int8OID BinaryFormatCode ?dst = Some scanPlanBinaryInt64"
    by (simp add: fastPathScanPlan_def typeOf_def)
  have plan: "PlanScan env st Int8OID BinaryFormatCode ?dst = (Some scanPlanBinaryInt64, st)"
    by (rule PlanScan_fast [OF fast])
  have scan: "Scan (Suc n) env st Int8OID BinaryFormatCode (Some src) ?dst
      = scanPlanBinaryInt64_Scan env (ScanPlan_Scan n env) Int8OID BinaryFormatCode (Some src) ?dst st"
    by (simp add: Scan_def replan_def plan)
  show ?thesis
  proof (cases "length src = 8")
    case True
    then show ?thesis
      using plan scan assms
      by (simp add: scanPlanBinaryInt64_Scan_def typeOf_def BigEndian_Uint64_value
          assign_allocated)
  next
    case False
    then show ?thesis
      using plan scan by (simp add: scanPlanBinaryInt64_Scan_def)
  qed
qed

text \<open>Scenario A of the specification: the bytes \<^verbatim>\<open>00 00 00 00 00 00 00 2A\<close> give 42.\<close>

theorem scan_int8_binary_into_int64_witness:
  "Scan 1 env0 state0 Int8OID BinaryFormatCode (Some [0, 0, 0, 0, 0, 0, 0, 0x2A])
     (Some (PtrTo (Basic GoInt64), VPtr (Some 0)))
     = Returned None (state0\<lparr>heap := [VInt64 42, VString [], VBytes (Some [1])]\<rparr>)
   \<and> Scan 1 env0 state0 Int8OID BinaryFormatCode (Some [0, 0, 0, 0x2A])
     (Some (PtrTo (Basic GoInt64), VPtr (Some 0)))
     = Returned (Some (InvalidLengthInt8 4)) state0"
proof -
  have a: "0 < length (heap state0)"
    by (simp add: state0_def)
  from scan_int8_binary_into_int64 [OF a, of env0 0 "[0, 0, 0, 0, 0, 0, 0, 0x2A]"]
    scan_int8_binary_into_int64 [OF a, of env0 0 "[0, 0, 0, 0x2A]"]
  show ?thesis
    by (simp add: bigEndianValue_def state0_def)
qed

section \<open>PlanScan always returns a plan\<close>

lemma PlanScan_body_Some:
  "\<exists>plan st1. PlanScan_body rec env st oid formatCode dst = (Some plan, st1)"
  by (auto simp: PlanScan_body_def split: option.splits prod.splits)

lemma PlanScan_Some: "\<exists>plan st1. PlanScan env st oid formatCode dst = (Some plan, st1)"
  by (subst PlanScan.simps) (rule PlanScan_body_Some)

lemma replan_eq:
  "PlanScan env st oid formatCode dst = (Some plan, st1)
     \<Longrightarrow> replan env rec oid formatCode src dst st = rec plan oid formatCode src dst st1"
  by (simp add: replan_def)

lemma PlanScan_last_resort:
  assumes "fastPathScanPlan env oid formatCode dst = None"
    and "oid \<noteq> 0" and "DataTypeForOID (ci st) oid = None"
  shows "PlanScan env st oid formatCode dst
       = (Some (if hasInterface env dst SQLScanner then scanPlanSQLScanner
                else scanPlanReflection), st)"
  using assms by (simp add: PlanScan.simps PlanScan_body_def)

lemma PlanEncode_unregistered:
  assumes "oid \<noteq> 0" and "DataTypeForOID (ci st) oid = None"
  shows "PlanEncode env st oid formatCode v = Done (None, st)"
  using assms by (simp add: PlanEncode.simps PlanEncode_body_def)

text \<open>
  C8. For every OID, format code and destination (nil or not), \<^verbatim>\<open>PlanScan\<close> returns and
  its plan is not nil, so \<^verbatim>\<open>Scan\<close> on a non-nil destination is the \<^verbatim>\<open>Scan\<close> of that plan;
  when no fast path applies and no DataType is found the plan is the
  \<^verbatim>\<open>sql.Scanner\<close> plan or the reflective one. \<^verbatim>\<open>PlanEncode\<close>, in contrast, returns nil
  for an OID that is not registered, and \<^verbatim>\<open>Encode\<close> turns that into an error.
\<close>

theorem PlanScan_never_nil:
  "(\<exists>plan st1. PlanScan env st oid formatCode dst = (Some plan, st1)
       \<and> Scan fuel env st oid formatCode src dst
           = (if dst = None then Returned None st
              else ScanPlan_Scan fuel env plan oid formatCode src dst st1))
   \<and> (fastPathScanPlan env oid formatCode dst = None \<and> oid \<noteq> 0
         \<and> DataTypeForOID (ci st) oid = None
        \<longrightarrow> PlanScan env st oid formatCode dst
              = (Some (if hasInterface env dst SQLScanner then scanPlanSQLScanner
                       else scanPlanReflection), st))
   \<and> (oid \<noteq> 0 \<and> DataTypeForOID (ci st) oid = None \<and> v \<noteq> None
        \<longrightarrow> PlanEncode env st oid formatCode v = Done (None, st)
          \<and> Encode env st oid formatCode v buf = Done ((None, Some (UnableToEncode v)), st))"
proof -
  obtain plan st1 where p: "PlanScan env st oid formatCode dst = (Some plan, st1)"
    using PlanScan_Some by blast
  have "Scan fuel env st oid formatCode src dst
           = (if dst = None then Returned None st
              else ScanPlan_Scan fuel env plan oid formatCode src dst st1)"
    by (simp add: Scan_def replan_eq [OF p])
  with p show ?thesis
    by (auto simp: Encode_def PlanEncode_unregistered PlanScan_last_resort)
qed

theorem PlanScan_never_nil_witness:
  "PlanScan env0 state0 Int8OID BinaryFormatCode bytesDst = (Some scanPlanReflection, state0)
   \<and> PlanEncode env0 state0 Int8OID BinaryFormatCode (Some (Basic GoInt64, VInt64 5))
       = Done (None, state0)
   \<and> Encode env0 state0 Int8OID BinaryFormatCode (Some (Basic GoInt64, VInt64 5)) (Some [])
       = Done ((None, Some (UnableToEncode (Some (Basic GoInt64, VInt64 5)))), state0)"
proof -
  have a: "Int8OID \<noteq> 0 \<and> DataTypeForOID (ci state0) Int8OID = None
      \<and> Some (Basic GoInt64, VInt64 5) \<noteq> None"
    by (simp add: Int8OID_def DataTypeForOID_def state0_def newConnInfo_def)
  have b: "fastPathScanPlan env0 Int8OID BinaryFormatCode bytesDst = None"
    by (simp add: fastPathScanPlan_def bytesDst_def typeOf_def hasInterface_def
        Int8OID_def BinaryFormatCode_def TextFormatCode_def ByteaOID_def TextOID_def
        VarcharOID_def JSONOID_def)
  have c: "\<not> hasInterface env0 bytesDst SQLScanner"
    by (simp add: hasInterface_def bytesDst_def)
  from PlanScan_never_nil [of env0 state0 Int8OID BinaryFormatCode bytesDst 1 None
      "Some (Basic GoInt64, VInt64 5)" "Some []"] a b c
  show ?thesis by simp
qed

section \<open>NULL into a byte slice and into a string\<close>

lemma fastPath_bytes_text:
  "fastPathScanPlan env oid TextFormatCode (Some (PtrTo (SliceOf (Basic GoUint8)), p))
     = (if oid \<noteq> ByteaOID then Some scanPlanBinaryBytes else None)"
  by (simp add: fastPathScanPlan_def typeOf_def BinaryFormatCode_def TextFormatCode_def)

lemma fastPath_bytes_binary:
  "fastPathScanPlan env oid BinaryFormatCode (Some (PtrTo (SliceOf (Basic GoUint8)), p))
     = (if oid = ByteaOID \<or> oid = TextOID \<or> oid = VarcharOID \<or> oid = JSONOID
        then Some scanPlanBinaryBytes else None)"
  by (simp add: fastPathScanPlan_def typeOf_def)

lemma fastPath_string_text:
  "fastPathScanPlan env oid TextFormatCode (Some (PtrTo (Basic GoString), p))
     = Some scanPlanString"
  by (simp add: fastPathScanPlan_def typeOf_def BinaryFormatCode_def TextFormatCode_def)

lemma fastPath_string_binary:
  "fastPathScanPlan env oid BinaryFormatCode (Some (PtrTo (Basic GoString), p))
     = (if oid = TextOID \<or> oid = VarcharOID then Some scanPlanString else None)"
  by (simp add: fastPathScanPlan_def typeOf_def)

lemma fastPath_bytes:
  assumes "formatCode = TextFormatCode \<and> oid \<noteq> ByteaOID
         \<or> formatCode = BinaryFormatCode
           \<and> (oid = ByteaOID \<or> oid = TextOID \<or> oid = VarcharOID \<or> oid = JSONOID)"
  shows "fastPathScanPlan env oid formatCode (Some (PtrTo (SliceOf (Basic GoUint8)), p))
       = Some scanPlanBinaryBytes"
  using assms by (auto simp: fastPath_bytes_text fastPath_bytes_binary)

lemma fastPath_string:
  assumes "formatCode = TextFormatCode
         \<or> formatCode = BinaryFormatCode \<and> (oid = TextOID \<or> oid = VarcharOID)"
  shows "fastPathScanPlan env oid formatCode (Some (PtrTo (Basic GoString), p))
       = Some scanPlanString"
  using assms by (auto simp: fastPath_string_text fastPath_string_binary)

text \<open>
  C10. On a NULL \<open>src\<close> the byte-slice plan stores the nil slice in a \<^verbatim>\<open>*[]byte\<close> that
  points to a variable and returns no error, while the string plan returns the
  cannot-scan-null error for a \<^verbatim>\<open>*string\<close> and writes nothing; so does \<^verbatim>\<open>Scan\<close> for the
  OIDs and formats that \<^verbatim>\<open>PlanScan\<close> gives these fast paths.
\<close>

theorem null_into_bytes_and_string:
  assumes "a < length (heap st)"
  shows "ScanPlan_Scan (Suc n) env scanPlanBinaryBytes oid formatCode None
           (Some (PtrTo (SliceOf (Basic GoUint8)), VPtr (Some a))) st
         = Returned None (st\<lparr>heap := (heap st)[a := VBytes None]\<rparr>)
       \<and> ScanPlan_Scan (Suc n) env scanPlanString oid formatCode None
           (Some (PtrTo (Basic GoString), VPtr (Some a))) st
         = Returned (Some (CannotScanNull (Some (PtrTo (Basic GoString))))) st
       \<and> (formatCode = TextFormatCode \<and> oid \<noteq> ByteaOID
            \<or> formatCode = BinaryFormatCode
              \<and> (oid = ByteaOID \<or> oid = TextOID \<or> oid = VarcharOID \<or> oid = JSONOID)
          \<longrightarrow> Scan (Suc n) env st oid formatCode None
                (Some (PtrTo (SliceOf (Basic GoUint8)), VPtr (Some a)))
              = Returned None (st\<lparr>heap := (heap st)[a := VBytes None]\<rparr>))
       \<and> (formatCode = TextFormatCode
            \<or> formatCode = BinaryFormatCode \<and> (oid = TextOID \<or> oid = VarcharOID)
          \<longrightarrow> Scan (Suc n) env st oid formatCode None
                (Some (PtrTo (Basic GoString), VPtr (Some a)))
              = Returned (Some (CannotScanNull (Some (PtrTo (Basic GoString))))) st)"
proof -
  have bytes: "ScanPlan_Scan (Suc n) env scanPlanBinaryBytes oid formatCode None
           (Some (PtrTo (SliceOf (Basic GoUint8)), VPtr (Some a))) st
         = Returned None (st\<lparr>heap := (heap st)[a := VBytes None]\<rparr>)"
    using assms by (simp add: scanPlanBinaryBytes_Scan_def typeOf_def assign_allocated)
  have string: "ScanPlan_Scan (Suc n) env scanPlanString oid formatCode None
           (Some (PtrTo (Basic GoString), VPtr (Some a))) st
         = Returned (Some (CannotScanNull (Some (PtrTo (Basic GoString))))) st"
    by (simp add: scanPlanString_Scan_def typeOf_def)
  show ?thesis
    using bytes string
    by (auto simp: Scan_def replan_def PlanScan_fast [OF fastPath_bytes]
        PlanScan_fast [OF fastPath_string] simp del: ScanPlan_Scan.simps)
qed

theorem null_into_bytes_and_string_witness:
  "Scan 1 env0 state0 TextOID TextFormatCode None bytesDst
     = Returned None (state0\<lparr>heap := [VOther 0, VString [], VBytes None]\<rparr>)
   \<and> Scan 1 env0 state0 TextOID TextFormatCode None stringDst
     = Returned (Some (CannotScanNull (Some (PtrTo (Basic GoString))))) state0"
proof -
  have a: "2 < length (heap state0)" and b: "1 < length (heap state0)"
    by (simp_all add: state0_def)
  have c: "TextOID \<noteq> ByteaOID"
    by (simp add: TextOID_def ByteaOID_def)
  from null_into_bytes_and_string [OF a, of 0 env0 TextOID TextFormatCode]
    null_into_bytes_and_string [OF b, of 0 env0 TextOID TextFormatCode] c
  show ?thesis
    by (simp add: bytesDst_def stringDst_def state0_def)
qed

section \<open>The pointer-to-pointer adapter\<close>

lemma fastPath_pointer_pointer:
  "fastPathScanPlan env oid formatCode (Some (PtrTo (PtrTo t), p)) = None"
  by (simp add: fastPathScanPlan_def typeOf_def hasInterface_def)

lemma PlanScan_pointer_pointer:
  assumes "oid \<noteq> 0" and "DataTypeForOID (ci st) oid = Some dt" and "Codec dt = Some c"
    and "CodecPlanScan env c (ci st) oid formatCode (Some (PtrTo (PtrTo t), VPtr (Some a))) False
         = None"
    and "PlanScan env st oid formatCode (Some (PtrTo t, VPtr None)) = (Some next, st)"
  shows "PlanScan env st oid formatCode (Some (PtrTo (PtrTo t), VPtr (Some a)))
       = (Some (pointerPointerScanPlan (PtrTo (PtrTo t)) next), st)"
  using assms
  by (subst PlanScan.simps)
    (simp add: PlanScan_body_def fastPath_pointer_pointer tryPointerPointerScanPlan_def)

lemma pointerPointer_null:
  assumes "a < length (heap st)"
  shows "ScanPlan_Scan (Suc n) env (pointerPointerScanPlan (PtrTo (PtrTo t)) next) oid formatCode
           None (Some (PtrTo (PtrTo t), VPtr (Some a))) st
         = Returned None (st\<lparr>heap := (heap st)[a := VPtr None]\<rparr>)"
  using assms by (simp add: pointerPointerScanPlan_Scan_def typeOf_def assign_allocated)

lemma pointerPointer_value:
  assumes "a < length (heap st)"
  shows "ScanPlan_Scan (Suc n) env (pointerPointerScanPlan (PtrTo (PtrTo t)) next) oid formatCode
           (Some bs) (Some (PtrTo (PtrTo t), VPtr (Some a))) st
         = ScanPlan_Scan n env next oid formatCode (Some bs)
             (Some (PtrTo t, VPtr (Some (length (heap st)))))
             (st\<lparr>heap := (heap st)[a := VPtr (Some (length (heap st)))] @ [zero_of t]\<rparr>)"
  using assms by (simp add: pointerPointerScanPlan_Scan_def typeOf_def store_def Let_def)

lemma reflection_null:
  assumes "a < length (heap st)"
  shows "ScanPlan_Scan (Suc n) env scanPlanReflection oid formatCode None
           (Some (PtrTo (PtrTo t), VPtr (Some a))) st
         = Returned None (st\<lparr>heap := (heap st)[a := VPtr None]\<rparr>)"
  using assms by (simp add: scanPlanReflection_Scan_def assign_allocated)

lemma scan_null_pointer_pointer_string:
  assumes a: "a < length (heap st)"
    and reg: "DataTypeForOID (ci st) TextOID = None
         \<or> (\<exists>dt c. DataTypeForOID (ci st) TextOID = Some dt \<and> Codec dt = Some c
               \<and> CodecPlanScan env c (ci st) TextOID TextFormatCode
                    (Some (PtrTo (PtrTo (Basic GoString)), VPtr (Some a))) False = None)"
  shows "Scan (Suc n) env st TextOID TextFormatCode None
           (Some (PtrTo (PtrTo (Basic GoString)), VPtr (Some a)))
         = Returned None (st\<lparr>heap := (heap st)[a := VPtr None]\<rparr>)"
proof -
  let ?dst = "Some (PtrTo (PtrTo (Basic GoString)), VPtr (Some a))"
  have nz: "TextOID \<noteq> 0"
    by (simp add: TextOID_def)
  from reg show ?thesis
  proof
    assume none: "DataTypeForOID (ci st) TextOID = None"
    have "PlanScan env st TextOID TextFormatCode ?dst = (Some scanPlanReflection, st)"
      using PlanScan_last_resort [OF fastPath_pointer_pointer nz none]
      by (simp add: hasInterface_def)
    then show ?thesis
      by (simp add: Scan_def replan_def reflection_null [OF a] del: ScanPlan_Scan.simps)
  next
    assume "\<exists>dt c. DataTypeForOID (ci st) TextOID = Some dt \<and> Codec dt = Some c
               \<and> CodecPlanScan env c (ci st) TextOID TextFormatCode ?dst False = None"
    then obtain dt c where dt: "DataTypeForOID (ci st) TextOID = Some dt"
      and c: "Codec dt = Some c"
      and decl: "CodecPlanScan env c (ci st) TextOID TextFormatCode ?dst False = None"
      by blast
    have nx: "PlanScan env st TextOID TextFormatCode (Some (PtrTo (Basic GoString), VPtr None))
        = (Some scanPlanString, st)"
      by (rule PlanScan_fast [OF fastPath_string_text])
    have "PlanScan env st TextOID TextFormatCode ?dst
        = (Some (pointerPointerScanPlan (PtrTo (PtrTo (Basic GoString))) scanPlanString), st)"
      by (rule PlanScan_pointer_pointer [OF nz dt c decl nx])
    then show ?thesis
      by (simp add: Scan_def replan_def pointerPointer_null [OF a] del: ScanPlan_Scan.simps)
  qed
qed

lemma assign_nil: "assign (Some (t, VPtr None)) v st = Panicked"
  by (simp add: assign_def store_def)

text \<open>
  C3. \<^verbatim>\<open>tryPointerPointerScanPlan\<close> builds the plan for a destination of type \<^verbatim>\<open>**t\<close>. For a
  destination of exactly that type that points to a variable: on a NULL \<open>src\<close> the plan
  sets the inner pointer to nil and returns no error, whatever \<open>next\<close> is and with no
  fuel left for it; on a non-nil \<open>src\<close> it allocates a fresh zero value of type \<open>t\<close>,
  stores its address in the variable and returns what \<open>next\<close> returns on the fresh
  pointer. Scanning OID 25 in text format with a NULL \<open>src\<close> into a \<^verbatim>\<open>**string\<close> sets the
  inner pointer to nil, both when OID 25 is not registered (the reflective plan) and
  when its codec declines the destination (the pointer-to-pointer plan).
\<close>

theorem pointer_pointer_scan:
  assumes "a < length (heap st)"
  shows "tryPointerPointerScanPlan (Some (PtrTo (PtrTo t), VPtr (Some a)))
           = Some (PtrTo (PtrTo t), Some (PtrTo t, VPtr None))
       \<and> ScanPlan_Scan (Suc n) env (pointerPointerScanPlan (PtrTo (PtrTo t)) next) oid formatCode
           None (Some (PtrTo (PtrTo t), VPtr (Some a))) st
         = Returned None (st\<lparr>heap := (heap st)[a := VPtr None]\<rparr>)
       \<and> ScanPlan_Scan (Suc n) env (pointerPointerScanPlan (PtrTo (PtrTo t)) next) oid formatCode
           (Some bs) (Some (PtrTo (PtrTo t), VPtr (Some a))) st
         = ScanPlan_Scan n env next oid formatCode (Some bs)
             (Some (PtrTo t, VPtr (Some (length (heap st)))))
             (st\<lparr>heap := (heap st)[a := VPtr (Some (length (heap st)))] @ [zero_of t]\<rparr>)
       \<and> (DataTypeForOID (ci st) TextOID = None
            \<or> (\<exists>dt c. DataTypeForOID (ci st) TextOID = Some dt \<and> Codec dt = Some c
                  \<and> CodecPlanScan env c (ci st) TextOID TextFormatCode
                       (Some (PtrTo (PtrTo (Basic GoString)), VPtr (Some a))) False = None)
          \<longrightarrow> Scan (Suc n) env st TextOID TextFormatCode None
                (Some (PtrTo (PtrTo (Basic GoString)), VPtr (Some a)))
              = Returned None (st\<lparr>heap := (heap st)[a := VPtr None]\<rparr>))"
  using pointerPointer_null [OF assms] pointerPointer_value [OF assms]
    scan_null_pointer_pointer_string [OF assms]
  by (simp add: tryPointerPointerScanPlan_def del: ScanPlan_Scan.simps)

lemma state3_eq:
  "state3 = \<lparr> ci = newConnInfo\<lparr> oidToDataType := DAList.update 25 textCodecDataType DAList.empty,
                               nameToDataType := DAList.update ''text'' textCodecDataType DAList.empty,
                               oidToFormatCode := DAList.update 25 1 DAList.empty \<rparr>,
              heap = [VString [104], VPtr (Some 0)] \<rparr>"
  by (simp add: state3_def RegisterDataType_def textCodecDataType_def env0_def Let_def
      newConnInfo_def)

theorem pointer_pointer_scan_witness:
  "Scan 1 env0 state3 TextOID TextFormatCode None stringPtrDst
     = Returned None (state3\<lparr>heap := [VString [104], VPtr None]\<rparr>)
   \<and> ScanPlan_Scan 2 env0 (pointerPointerScanPlan (PtrTo (PtrTo (Basic GoString))) scanPlanString)
       TextOID TextFormatCode (Some [104, 105]) stringPtrDst state3
     = Returned None (state3\<lparr>heap := [VString [104], VPtr (Some 2), VString [104, 105]]\<rparr>)"
proof -
  have a: "1 < length (heap state3)"
    by (simp add: state3_eq)
  have reg: "\<exists>dt c. DataTypeForOID (ci state3) TextOID = Some dt \<and> Codec dt = Some c
      \<and> CodecPlanScan env0 c (ci state3) TextOID TextFormatCode
           (Some (PtrTo (PtrTo (Basic GoString)), VPtr (Some 1))) False = None"
    by (simp add: state3_eq DataTypeForOID_def TextOID_def textCodecDataType_def env0_def)
  have h: "heap state3 = [VString [104], VPtr (Some 0)]"
    by (simp add: state3_eq)
  have s: "ScanPlan_Scan 1 env0 scanPlanString TextOID TextFormatCode (Some [104, 105])
      (Some (PtrTo (Basic GoString), VPtr (Some 2)))
      (state3\<lparr>heap := [VString [104], VPtr (Some 2), VString []]\<rparr>)
      = Returned None (state3\<lparr>heap := [VString [104], VPtr (Some 2), VString [104, 105]]\<rparr>)"
    by (simp add: scanPlanString_Scan_def typeOf_def assign_def store_def)
  from pointer_pointer_scan [OF a, of "Basic GoString" 0 env0 scanPlanString TextOID
      TextFormatCode "[104, 105]"] reg
    pointer_pointer_scan [OF a, of "Basic GoString" 1 env0 scanPlanString TextOID
      TextFormatCode "[104, 105]"] s
  show ?thesis
    by (simp add: stringPtrDst_def h numeral_2_eq_2 del: ScanPlan_Scan.simps)
qed

section \<open>Re-planning\<close>




lemma PlanScan_string_text:
  "PlanScan env st oid TextFormatCode stringDst = (Some scanPlanString, st)"
  unfolding stringDst_def by (rule PlanScan_fast [OF fastPath_string_text])




text \<open>
  What the assign-to plan does once the decode step has succeeded and \<^verbatim>\<open>AssignTo\<close> has
  failed: through a pointer to \<^verbatim>\<open>interface{}\<close> it stores \<^verbatim>\<open>Value.Get()\<close>; otherwise it returns
  the error of \<^verbatim>\<open>AssignTo\<close> when the fresh plan is an assign-to plan, and panics when it
  is any other plan.
\<close>

lemma scanPlanDataTypeAssignTo_after_failure:
  assumes dec: "decodeIntoValue env dt formatCode src st = Done (None, st1)"
    and val: "Value dt \<noteq> None"
    and asg: "AssignTo env (Value dt) dst (heap st1) = (Some assignToErr, h)"
  shows "ScanPlan_Scan (Suc n) env (scanPlanDataTypeAssignTo dt) oid formatCode src dst st
       = (if typeOf dst = Some (PtrTo EmptyInterface)
          then assign dst (VIface (Get env (Value dt) h)) (st1\<lparr>heap := h\<rparr>)
          else (case PlanScan env (st1\<lparr>heap := h\<rparr>) oid formatCode dst of
                  (Some (scanPlanDataTypeAssignTo d), st2) \<Rightarrow> Returned (Some assignToErr) st2
                | (newPlan, st2) \<Rightarrow> Panicked))"
proof -
  have b: "\<not> (formatCode = BinaryFormatCode \<and> binaryDecoder dt = None)"
    using dec by (auto simp: decodeIntoValue_def split: if_splits)
  have t: "\<not> (formatCode = TextFormatCode \<and> textDecoder dt = None)"
    using dec
    by (auto simp: decodeIntoValue_def TextFormatCode_def BinaryFormatCode_def split: if_splits)
  show ?thesis
    using b t val by (auto simp: scanPlanDataTypeAssignTo_Scan_def dec asg)
qed

text \<open>
  C2 against the code. The decode step succeeds, \<^verbatim>\<open>AssignTo\<close> fails, the destination is a
  \<^verbatim>\<open>*string\<close> and not a pointer to \<^verbatim>\<open>interface{}\<close>, and the fresh plan for it is
  \<^verbatim>\<open>scanPlanString\<close>, not the assign-to plan. Running that fresh plan would store the
  string and return no error; the assign-to plan panics instead, because it calls
  \<^verbatim>\<open>Scan\<close> on the nil pointer of the failed type assertion.
\<close>

theorem assignTo_replan_panics:
  "decodeIntoValue env0 textDataType TextFormatCode (Some [104, 105]) state0 = Done (None, state0)
   \<and> AssignTo env0 (Value textDataType) stringDst (heap state0)
       = (Some (ExternalError 7), heap state0)
   \<and> typeOf stringDst \<noteq> Some (PtrTo EmptyInterface)
   \<and> PlanScan env0 state0 TextOID TextFormatCode stringDst = (Some scanPlanString, state0)
   \<and> ScanPlan_Scan 1 env0 scanPlanString TextOID TextFormatCode (Some [104, 105]) stringDst state0
       = Returned None (state0\<lparr>heap := [VOther 0, VString [104, 105], VBytes (Some [1])]\<rparr>)
   \<and> ScanPlan_Scan 2 env0 (scanPlanDataTypeAssignTo textDataType) TextOID TextFormatCode
         (Some [104, 105]) stringDst state0
       = Panicked"
proof -
  have dec: "decodeIntoValue env0 textDataType TextFormatCode (Some [104, 105]) state0
      = Done (None, state0)"
    by (simp add: decodeIntoValue_def textDataType_def textValue_def env0_def
        TextFormatCode_def BinaryFormatCode_def)
  have val: "Value textDataType \<noteq> None"
    by (simp add: textDataType_def textValue_def)
  have asg: "AssignTo env0 (Value textDataType) stringDst (heap state0)
      = (Some (ExternalError 7), heap state0)"
    by (simp add: env0_def)
  have ty: "typeOf stringDst \<noteq> Some (PtrTo EmptyInterface)"
    by (simp add: stringDst_def typeOf_def)
  have s: "ScanPlan_Scan 1 env0 scanPlanString TextOID TextFormatCode (Some [104, 105])
      stringDst state0
      = Returned None (state0\<lparr>heap := [VOther 0, VString [104, 105], VBytes (Some [1])]\<rparr>)"
    by (simp add: scanPlanString_Scan_def stringDst_def typeOf_def assign_def store_def
        state0_def)
  have "ScanPlan_Scan (Suc 1) env0 (scanPlanDataTypeAssignTo textDataType) TextOID
      TextFormatCode (Some [104, 105]) stringDst state0 = Panicked"
    by (simp only: scanPlanDataTypeAssignTo_after_failure [OF dec val asg])
      (simp add: ty PlanScan_string_text)
  then show ?thesis
    using dec asg ty s PlanScan_string_text by (simp add: numeral_2_eq_2 del: ScanPlan_Scan.simps)
qed

section \<open>Encoding NULL\<close>

lemma PlanEncode_codec:
  assumes "oid \<noteq> 0" and "DataTypeForOID (ci st) oid = Some dt" and "Codec dt = Some c"
    and "CodecPlanEncode env c (ci st) oid formatCode v = Some plan"
  shows "PlanEncode env st oid formatCode v = Done (Some plan, st)"
  using assms by (subst PlanEncode.simps) (simp add: PlanEncode_body_def)

lemma PlanEncode_deref:
  assumes "oid \<noteq> 0" and "DataTypeForOID (ci st) oid = Some dt" and "Codec dt = Some c"
    and "CodecPlanEncode env c (ci st) oid formatCode (Some (PtrTo e, x)) = None"
    and "e \<noteq> EmptyInterface"
    and "PlanEncode env st oid formatCode (Some (e, zero_of e)) = Done (Some next, st)"
  shows "PlanEncode env st oid formatCode (Some (PtrTo e, x))
       = Done (Some (derefPointerEncodePlan next), st)"
  using assms
  by (subst PlanEncode.simps) (simp add: PlanEncode_body_def tryDerefPointerEncodePlan_def)

text \<open>
  C6. For every OID, format code and buffer: \<^verbatim>\<open>Encode\<close> of the nil value returns
  \<^verbatim>\<open>(nil, nil)\<close> and changes nothing; the pointer-deref plan returns \<^verbatim>\<open>(nil, nil)\<close> on a nil
  pointer without calling its next plan, also when the nil pointer is reached through
  a pointer; and so does \<^verbatim>\<open>Encode\<close> of a nil pointer whenever \<^verbatim>\<open>PlanEncode\<close> answers with
  the pointer-deref plan. No byte is appended: the buffer returned is nil.
\<close>

theorem encode_null:
  "Encode env st oid formatCode None buf = Done ((None, None), st)
   \<and> EncodePlan_Encode env (derefPointerEncodePlan next) (Some (PtrTo e, VPtr None)) buf h
     = Done ((None, None), h)
   \<and> (a < length h \<and> h ! a = VPtr None
        \<longrightarrow> EncodePlan_Encode env (derefPointerEncodePlan (derefPointerEncodePlan next))
              (Some (PtrTo (PtrTo e), VPtr (Some a))) buf h
            = Done ((None, None), h))
   \<and> (PlanEncode env st oid formatCode (Some (PtrTo e, VPtr None))
         = Done (Some (derefPointerEncodePlan next), st1)
        \<longrightarrow> Encode env st oid formatCode (Some (PtrTo e, VPtr None)) buf
            = Done ((None, None), st1))"
  by (simp add: Encode_def load_def)

theorem encode_null_witness:
  "PlanEncode env2 state4 23 BinaryFormatCode (Some (PtrTo (Basic GoInt32), VPtr None))
     = Done (Some (derefPointerEncodePlan (codecEncodePlan 0)), state4)
   \<and> Encode env2 state4 23 BinaryFormatCode (Some (PtrTo (Basic GoInt32), VPtr None)) (Some [1, 2])
     = Done ((None, None), state4)
   \<and> EncodePlan_Encode env2
        (derefPointerEncodePlan (derefPointerEncodePlan (codecEncodePlan 0)))
        (Some (PtrTo (PtrTo (Basic GoInt32)), VPtr (Some 0))) (Some [1, 2]) (heap state4)
     = Done ((None, None), heap state4)"
proof -
  have dt: "DataTypeForOID (ci state4) 23 = Some int4DataType"
    by (simp add: DataTypeForOID_def state4_def)
  have c: "Codec int4DataType = Some 0"
    by (simp add: int4DataType_def)
  have inner: "PlanEncode env2 state4 23 BinaryFormatCode (Some (Basic GoInt32, zero_of (Basic GoInt32)))
      = Done (Some (codecEncodePlan 0), state4)"
    by (rule PlanEncode_codec [OF _ dt c]) (simp_all add: env2_def typeOf_def)
  have p: "PlanEncode env2 state4 23 BinaryFormatCode (Some (PtrTo (Basic GoInt32), VPtr None))
      = Done (Some (derefPointerEncodePlan (codecEncodePlan 0)), state4)"
    by (rule PlanEncode_deref [OF _ dt c _ _ inner]) (simp_all add: env2_def typeOf_def)
  have h: "0 < length (heap state4) \<and> heap state4 ! 0 = VPtr None"
    by (simp add: state4_def)
  from encode_null [of env2 state4 23 BinaryFormatCode "Some [1, 2]" "codecEncodePlan 0"
      "Basic GoInt32" "heap state4" 0 state4] p h
  show ?thesis by simp
qed

section \<open>The default PostgreSQL type of a native type\<close>

lemma new_ok: "names_ok newConnInfo \<and> cache_ok env newConnInfo"
  by (simp add: names_ok_def cache_ok_def newConnInfo_def)

lemma build_ignores_cache:
  "buildReflectTypeToDataType env (c\<lparr>reflectTypeToDataType := m\<rparr>)
     = (buildReflectTypeToDataType env c)"
  by (simp add: buildReflectTypeToDataType_def addDefaultType_def [abs_def])

lemma apply_op_ok:
  assumes "apply_op env st x = Done st1" and "names_ok (ci st)" and "cache_ok env (ci st)"
  shows "names_ok (ci st1) \<and> cache_ok env (ci st1)"
proof (cases x)
  case (OpRegisterDataType t)
  with assms show ?thesis
    by (auto simp: RegisterDataType_def names_ok_def cache_ok_def Let_def DAList.lookup_update
        split: outcome.splits prod.splits if_splits)
next
  case (OpRegisterDefaultPgType v name)
  with assms show ?thesis
    by (auto simp: RegisterDefaultPgType_def names_ok_def cache_ok_def)
next
  case (OpPreferAssignTo v)
  with assms show ?thesis
    by (auto simp: PreferAssignToOverSQLScannerForType_def names_ok_def cache_ok_def
        buildReflectTypeToDataType_def addDefaultType_def [abs_def])
next
  case (OpDataTypeForValue v)
  with assms show ?thesis
    by (auto simp: DataTypeForValue_def names_ok_def cache_ok_def Let_def build_ignores_cache
        buildReflectTypeToDataType_def addDefaultType_def [abs_def]
        split: if_splits option.splits)
qed

lemma apply_ops_ok:
  assumes "apply_ops env st xs = Done st1" and "names_ok (ci st)" and "cache_ok env (ci st)"
  shows "names_ok (ci st1) \<and> cache_ok env (ci st1)"
  using assms
proof (induction xs arbitrary: st)
  case Nil
  then show ?case by simp
next
  case (Cons x xs)
  from Cons.prems(1) obtain st0 where a: "apply_op env st x = Done st0"
    and b: "apply_ops env st0 xs = Done st1"
    by (auto split: outcome.splits)
  from apply_op_ok [OF a Cons.prems(2,3)] Cons.IH [OF b] show ?case by simp
qed

lemma apply_ops_append:
  assumes "apply_ops env st (xs @ ys) = Done st2"
  shows "\<exists>st1. apply_ops env st xs = Done st1 \<and> apply_ops env st1 ys = Done st2"
  using assms by (induction xs arbitrary: st) (auto split: outcome.splits)

lemma apply_op_keeps_default:
  assumes "apply_op env st x = Done st1" and "\<not> redefines ty x"
  shows "DAList.lookup (reflectTypeToName (ci st1)) ty = DAList.lookup (reflectTypeToName (ci st)) ty"
  using assms
  by (cases x)
    (auto simp: RegisterDataType_def RegisterDefaultPgType_def Let_def
      PreferAssignToOverSQLScannerForType_def DataTypeForValue_def buildReflectTypeToDataType_def
      split: outcome.splits prod.splits if_splits option.splits)

lemma apply_ops_keeps_default:
  assumes "apply_ops env st xs = Done st1" and "\<forall>x \<in> set xs. \<not> redefines ty x"
  shows "DAList.lookup (reflectTypeToName (ci st1)) ty = DAList.lookup (reflectTypeToName (ci st)) ty"
  using assms
proof (induction xs arbitrary: st)
  case Nil
  then show ?case by simp
next
  case (Cons x xs)
  from Cons.prems(1) obtain st0 where a: "apply_op env st x = Done st0"
    and b: "apply_ops env st0 xs = Done st1"
    by (auto split: outcome.splits)
  from Cons.prems(2) have nx: "\<not> redefines ty x" and nxs: "\<forall>x \<in> set xs. \<not> redefines ty x"
    by simp_all
  from Cons.IH [OF b nxs] apply_op_keeps_default [OF a nx] show ?case by simp
qed

lemma fold_addDefaultType:
  assumes "distinct (map fst xs)" and "map_of xs k = Some name"
    and "DAList.lookup (nameToDataType c) name = Some dt"
  shows "DAList.lookup (fold (addDefaultType c) xs m) k = Some dt"
  using assms
proof (induction xs arbitrary: m)
  case Nil
  then show ?case by simp
next
  case (Cons x xs)
  show ?case
  proof (cases "fst x = k")
    case True
    with Cons.prems have name: "snd x = name" and notin: "k \<notin> fst ` set xs"
      by (auto simp: rev_image_eqI)
    have keep: "DAList.lookup (fold (addDefaultType c) xs m') k = DAList.lookup m' k" for m'
      using notin
    proof (induction xs arbitrary: m')
      case Nil
      then show ?case by simp
    next
      case (Cons y ys)
      then show ?case
        by (auto simp: addDefaultType_def DAList.lookup_update split: option.splits)
    qed
    have "DAList.lookup (fold (addDefaultType c) (x # xs) m) k
        = DAList.lookup (addDefaultType c x m) k"
      by (simp only: fold_simps comp_apply keep)
    also have "\<dots> = Some dt"
      using True name Cons.prems(3) by (simp add: addDefaultType_def)
    finally show ?thesis .
  next
    case False
    with Cons.prems have "distinct (map fst xs)" and "map_of xs k = Some name"
      by (auto split: if_splits)
    from Cons.IH [OF this Cons.prems(3)] show ?thesis by simp
  qed
qed

lemma build_lookup_default:
  assumes "DAList.lookup (reflectTypeToName c) ty = Some name"
    and "DAList.lookup (nameToDataType c) name = Some dt"
  shows "\<exists>m. reflectTypeToDataType (buildReflectTypeToDataType env c) = Some m
           \<and> DAList.lookup m ty = Some dt"
proof -
  have "map_of (DAList.impl_of (reflectTypeToName c)) ty = Some name"
    using assms(1) by (simp only: DAList.lookup.rep_eq)
  from fold_addDefaultType [OF impl_of_distinct this assms(2)]
  show ?thesis
    by (simp add: buildReflectTypeToDataType_def)
qed

text \<open>
  C5, as the code has it. On a registry made by any calls that include
  \<^verbatim>\<open>RegisterDefaultPgType(v0, name)\<close>, with no later such call for the native type of
  \<open>v0\<close>, and in which \<open>name\<close> is registered: \<^verbatim>\<open>DataTypeForValue\<close> of a value of that native
  type \<^bold>\<open>that is not a TypeValue\<close> finds the DataType registered under \<open>name\<close>, whose
  \<open>Name\<close> is \<open>name\<close>. The lookup builds the derived index when it is absent and leaves
  the registry as it is otherwise.
\<close>

theorem default_type_found:
  assumes hist: "apply_ops env \<lparr>ci = newConnInfo, heap = h0\<rparr>
                   (before @ OpRegisterDefaultPgType v0 name # after) = Done st"
    and later: "\<forall>x \<in> set after. \<not> redefines (typeOf v0) x"
    and reg: "DataTypeForName (ci st) name \<noteq> None"
    and ty: "typeOf v = typeOf v0"
    and ntv: "\<not> hasInterface env v TypeValue"
  shows "(\<exists>dt. fst (DataTypeForValue env st v) = Some dt \<and> Name dt = name
             \<and> DataTypeForName (ci st) name = Some dt)
       \<and> snd (DataTypeForValue env st v)
           = (if reflectTypeToDataType (ci st) = None
              then st\<lparr>ci := buildReflectTypeToDataType env (ci st)\<rparr> else st)
       \<and> reflectTypeToDataType (ci (snd (DataTypeForValue env st v))) \<noteq> None"
proof -
  from apply_ops_append [OF hist] obtain st1
    where "apply_ops env st1 (OpRegisterDefaultPgType v0 name # after) = Done st"
    by blast
  then have aft: "apply_ops env (st1\<lparr>ci := RegisterDefaultPgType (ci st1) v0 name\<rparr>) after = Done st"
    by simp
  have def: "DAList.lookup (reflectTypeToName (ci st)) (typeOf v) = Some name"
    using apply_ops_keeps_default [OF aft later] ty
    by (simp add: RegisterDefaultPgType_def)
  have ok: "names_ok (ci st)" "cache_ok env (ci st)"
    using apply_ops_ok [OF hist] new_ok by simp_all
  from reg obtain dt where dt: "DAList.lookup (nameToDataType (ci st)) name = Some dt"
    by (auto simp: DataTypeForName_def)
  with ok(1) have nm: "Name dt = name"
    by (simp add: names_ok_def)
  from build_lookup_default [OF def dt] obtain m
    where m: "reflectTypeToDataType (buildReflectTypeToDataType env (ci st)) = Some m"
      and look: "DAList.lookup m (typeOf v) = Some dt"
    by blast
  show ?thesis
  proof (cases "reflectTypeToDataType (ci st) = None")
    case True
    then show ?thesis
      using ntv m look nm dt
      by (simp add: DataTypeForValue_def Let_def DataTypeForName_def)
  next
    case False
    with ok(2) have "reflectTypeToDataType (ci st) = Some m"
      by (simp add: cache_ok_def m)
    then show ?thesis
      using ntv look nm dt
      by (simp add: DataTypeForValue_def Let_def DataTypeForName_def)
  qed
qed

lemma defaultHistory_state:
  "apply_ops env state0 (defaultHistory v)
     = Done \<lparr> ci = newConnInfo
                  \<lparr> oidToDataType := DAList.update 20 int8DataType DAList.empty,
                    nameToDataType := DAList.update ''int8'' int8DataType DAList.empty,
                    reflectTypeToName := DAList.update (typeOf v) ''int8'' DAList.empty,
                    oidToFormatCode := DAList.update 20 (PreferredFormat env 0) DAList.empty \<rparr>,
              heap = heap state0 \<rparr>"
  by (simp add: defaultHistory_def RegisterDataType_def RegisterDefaultPgType_def
      int8DataType_def Let_def state0_def newConnInfo_def)

theorem default_type_found_witness:
  "fst (DataTypeForValue env0 state5 (Some (Basic GoInt64, VInt64 7))) = Some int8DataType
   \<and> reflectTypeToDataType (ci state5) = None
   \<and> reflectTypeToDataType (ci (snd (DataTypeForValue env0 state5 (Some (Basic GoInt64, VInt64 7)))))
       \<noteq> None"
proof -
  have hist: "apply_ops env0 \<lparr>ci = newConnInfo, heap = heap state0\<rparr>
      ([OpRegisterDataType int8DataType] @ OpRegisterDefaultPgType int64Value ''int8'' # [])
      = Done state5"
    using defaultHistory_state [of env0 int64Value]
    by (simp add: state5_def defaultHistory_def state0_def)
  have s5: "state5 = \<lparr> ci = newConnInfo
                  \<lparr> oidToDataType := DAList.update 20 int8DataType DAList.empty,
                    nameToDataType := DAList.update ''int8'' int8DataType DAList.empty,
                    reflectTypeToName := DAList.update (typeOf int64Value) ''int8'' DAList.empty,
                    oidToFormatCode := DAList.update 20 (PreferredFormat env0 0) DAList.empty \<rparr>,
              heap = heap state0 \<rparr>"
    by (simp add: state5_def defaultHistory_state)
  have reg: "DataTypeForName (ci state5) ''int8'' = Some int8DataType"
    by (simp add: s5 DataTypeForName_def)
  have none: "reflectTypeToDataType (ci state5) = None"
    by (simp add: s5 newConnInfo_def)
  have ty: "typeOf (Some (Basic GoInt64, VInt64 7)) = typeOf int64Value"
    by (simp add: typeOf_def int64Value_def)
  have ntv: "\<not> hasInterface env0 (Some (Basic GoInt64, VInt64 7)) TypeValue"
    by (simp add: hasInterface_def)
  from default_type_found [OF hist _ _ ty ntv] reg none
  show ?thesis by auto
qed

text \<open>
  C5 as stated fails on a TypeValue: \<^verbatim>\<open>DataTypeForValue\<close> looks a TypeValue up by its
  \<^verbatim>\<open>TypeName()\<close> and not by its native type. With \<^verbatim>\<open>"int8"\<close> registered and made the
  default of \<^verbatim>\<open>*EnumType\<close>, the lookup of an \<^verbatim>\<open>*EnumType\<close> whose type name is \<^verbatim>\<open>"mood"\<close>
  finds nothing.
\<close>

theorem type_value_ignores_default:
  "apply_ops env1 state0
     [OpRegisterDataType int8DataType, OpRegisterDefaultPgType enumValue ''int8'']
     = Done state6
   \<and> DataTypeForName (ci state6) ''int8'' = Some int8DataType
   \<and> DAList.lookup (reflectTypeToName (ci state6)) (typeOf enumValue) = Some ''int8''
   \<and> fst (DataTypeForValue env1 state6 enumValue) = None"
proof -
  have s6: "state6 = \<lparr> ci = newConnInfo
                  \<lparr> oidToDataType := DAList.update 20 int8DataType DAList.empty,
                    nameToDataType := DAList.update ''int8'' int8DataType DAList.empty,
                    reflectTypeToName := DAList.update (typeOf enumValue) ''int8'' DAList.empty,
                    oidToFormatCode := DAList.update 20 (PreferredFormat env1 0) DAList.empty \<rparr>,
              heap = heap state0 \<rparr>"
    by (simp add: state6_def defaultHistory_state)
  have tv: "hasInterface env1 enumValue TypeValue"
    by (simp add: hasInterface_def enumValue_def env1_def)
  have nm: "TypeName env1 enumValue = ''mood''"
    by (simp add: env1_def)
  have a: "apply_ops env1 state0
     [OpRegisterDataType int8DataType, OpRegisterDefaultPgType enumValue ''int8'']
     = Done state6"
    using defaultHistory_state [of env1 enumValue] by (simp add: s6 defaultHistory_def)
  have b: "fst (DataTypeForValue env1 state6 enumValue) = None"
    by (simp add: DataTypeForValue_def Let_def tv nm)
      (simp add: s6 buildReflectTypeToDataType_def newConnInfo_def)
  show ?thesis
    using a b by (simp add: s6 DataTypeForName_def)
qed

section \<open>Registering a DataType twice\<close>




















end
